theory Spec2Isabelle
  imports Main
begin

section \<open>Errors raised by the interpreter and by the storage engine\<close>

text \<open>
  The module \<^verbatim>\<open>MDSynthesis/Core/Files.py\<close> contains no \<^verbatim>\<open>try\<close>, \<^verbatim>\<open>except\<close>,
  \<^verbatim>\<open>finally\<close>, \<^verbatim>\<open>with\<close> or \<^verbatim>\<open>raise\<close> statement. Every exception below is raised by
  the Python interpreter (an unbound name, a missing attribute) or by the table library,
  and travels up through the methods of the module unhandled.
\<close>

datatype error =
    NameError string
  | AttributeError string
  | TypeError
  | IOError
  | NoSuchNodeError string
  | ClosedFileError
  | IndexError
  | NotImplementedError
  | KeyError string

section \<open>The table library, as the module uses it\<close>

text \<open>
  A column declared \<^verbatim>\<open>tables.StringCol(n)\<close> is a buffer of \<open>n\<close> bytes. Assigning a
  longer string to a field of a row keeps the first \<open>n\<close> bytes and raises nothing;
  reading a field back drops the NUL bytes that pad it at the end. \<open>StringCol n v\<close> is
  the value read back after \<open>v\<close> was assigned. Strings are Python 2 byte strings, so
  \<open>length\<close> counts what the column counts.
\<close>

definition rstrip_nul :: "string \<Rightarrow> string" where
  "rstrip_nul v = rev (dropWhile (\<lambda>c. c = CHR 0x00) (rev v))"

definition StringCol :: "nat \<Rightarrow> string \<Rightarrow> string" where
  "StringCol n v = rstrip_nul (take n v)"

text \<open>The four row descriptions of \<^verbatim>\<open>ContainerFile\<close> (lines 98 to 143).\<close>

record Meta =
  uuid :: string
  name :: string
  container :: string
  location :: string

definition Meta_row :: "string \<Rightarrow> string \<Rightarrow> string \<Rightarrow> string \<Rightarrow> Meta" where
  "Meta_row u n c l =
     \<lparr>uuid = StringCol 36 u, name = StringCol 128 n,
      container = StringCol 36 c, location = StringCol 256 l\<rparr>"

definition Coordinator_row :: "string \<Rightarrow> string" where
  "Coordinator_row p = StringCol 256 p"

definition Tags_row :: "string \<Rightarrow> string" where
  "Tags_row t = StringCol 36 t"

definition Categories_row :: "string \<Rightarrow> string \<Rightarrow> string \<times> string" where
  "Categories_row k v = (StringCol 36 k, StringCol 36 v)"

text \<open>
  The contents of one HDF5 file: the nodes under the root, each absent (\<open>None\<close>) or a
  table with its rows in row order, and the group \<^verbatim>\<open>universes\<close> of a Sim file.
\<close>

record h5file =
  meta_node :: "Meta list option"
  coordinator_node :: "string list option"
  tags_node :: "string list option"
  categories_node :: "(string \<times> string) list option"
  universes_group :: bool

definition empty_h5 :: h5file where
  "empty_h5 =
     \<lparr>meta_node = None, coordinator_node = None, tags_node = None,
      categories_node = None, universes_group = False\<rparr>"

text \<open>
  Calls that change the set of rows of a table or replace the table object are logged,
  in the order the module makes them: \<^verbatim>\<open>create_table\<close>, \<^verbatim>\<open>table.remove()\<close>,
  \<^verbatim>\<open>table.remove_row(n)\<close>, \<^verbatim>\<open>row.append()\<close> and \<^verbatim>\<open>row.update()\<close>.
\<close>

datatype event =
    Create_table string
  | Remove_table string
  | Remove_row string int
  | Append_row string
  | Update_row string nat

text \<open>
  \<^verbatim>\<open>table.remove_row(n)\<close>. The library of the module's time refuses to delete every
  row of a table (the "limitation of PyTables" of lines 361 and 454): removing the only
  row raises \<^verbatim>\<open>NotImplementedError\<close>. An index outside the table is modelled as an
  \<^verbatim>\<open>IndexError\<close>; the theorems below show that the module never passes one.
\<close>

definition remove_row :: "int \<Rightarrow> 'r list \<Rightarrow> error + 'r list" where
  "remove_row n table =
     (if 0 \<le> n \<and> nat n < length table then
        (if length table = 1 then Inl NotImplementedError
         else Inr (take (nat n) table @ drop (Suc (nat n)) table))
      else Inl IndexError)"

section \<open>The File object and the file on disk\<close>

datatype mode = Read | Append | Write

datatype lock = Unlocked | Shared | Exclusive

text \<open>
  \<^verbatim>\<open>self.handle\<close>: \<^verbatim>\<open>None\<close> after \<^verbatim>\<open>File.__init__\<close>, then the object returned by
  the last \<^verbatim>\<open>tables.open_file\<close>, open with a lock state or closed.
\<close>

datatype handle = No_handle | Open_handle mode lock | Closed_handle

record state =
  on_disk :: bool
  h5 :: h5file
  handle :: handle
  events :: "event list"

type_synonym 'a action = "state \<Rightarrow> (error + 'a) \<times> state"

definition bind_action :: "'a action \<Rightarrow> ('a \<Rightarrow> 'b action) \<Rightarrow> 'b action" where
  "bind_action m f s = (case m s of (Inl e, s') \<Rightarrow> (Inl e, s') | (Inr x, s') \<Rightarrow> f x s')"

definition return_action :: "'a \<Rightarrow> 'a action" where
  "return_action x s = (Inr x, s)"

text \<open>
  \<^verbatim>\<open>self.handle = tables.open_file(self.filename, mode)\<close>. Mode \<^verbatim>\<open>'r'\<close> needs the
  file to exist; \<^verbatim>\<open>'a'\<close> creates it empty when it does not; \<^verbatim>\<open>'w'\<close> always starts
  from an empty file. When the call raises, the assignment does not happen. Failures of
  the file system itself (permissions, a full disk) are outside the model.
\<close>

definition open_file :: "mode \<Rightarrow> unit action" where
  "open_file m s =
     (case m of
        Read \<Rightarrow>
          if on_disk s then (Inr (), s\<lparr>handle := Open_handle Read Unlocked\<rparr>)
          else (Inl IOError, s)
      | Append \<Rightarrow>
          (Inr (), s\<lparr>on_disk := True, h5 := (if on_disk s then h5 s else empty_h5),
                      handle := Open_handle Append Unlocked\<rparr>)
      | Write \<Rightarrow>
          (Inr (), s\<lparr>on_disk := True, h5 := empty_h5,
                      handle := Open_handle Write Unlocked\<rparr>))"

text \<open>
  \<^verbatim>\<open>File._shlock\<close> and \<^verbatim>\<open>File._exlock\<close> (lines 39 to 70). \<^verbatim>\<open>fcntl.lockf\<close> blocks
  until the lock is granted; other processes are not modelled, so it is granted at once.
\<close>

definition File_shlock :: "bool action" where
  "File_shlock s =
     (case handle s of
        No_handle \<Rightarrow> (Inl TypeError, s)
      | Closed_handle \<Rightarrow> (Inl ClosedFileError, s)
      | Open_handle m l \<Rightarrow> (Inr True, s\<lparr>handle := Open_handle m Shared\<rparr>))"

definition lockf_EX :: "unit action" where
  "lockf_EX s =
     (case handle s of
        No_handle \<Rightarrow> (Inl TypeError, s)
      | Closed_handle \<Rightarrow> (Inl ClosedFileError, s)
      | Open_handle m l \<Rightarrow> (Inr (), s\<lparr>handle := Open_handle m Exclusive\<rparr>))"

definition File_exlock :: "bool action" where
  "File_exlock =
     bind_action File_shlock (\<lambda>got.
       if got then bind_action lockf_EX (\<lambda>_. return_action True)
       else return_action True)"

text \<open>\<^verbatim>\<open>self.handle.close()\<close>: closing releases the lock.\<close>

definition handle_close :: "unit action" where
  "handle_close s =
     (case handle s of
        No_handle \<Rightarrow> (Inl (AttributeError ''close''), s)
      | _ \<Rightarrow> (Inr (), s\<lparr>handle := Closed_handle\<rparr>))"

definition check_existence :: "state \<Rightarrow> bool" where
  "check_existence s = on_disk s"

section \<open>The decorators\<close>

text \<open>
  \<^verbatim>\<open>ContainerFile._read\<close> and \<^verbatim>\<open>ContainerFile._write\<close> (lines 246 to 282): the inner
  function opens the file, takes the lock, calls the wrapped method, closes the handle
  and returns the method's result. The four statements follow one another; an exception
  in any of them ends the inner function there.
\<close>

definition read_inner :: "'a action \<Rightarrow> 'a action" where
  "read_inner func =
     bind_action (open_file Read) (\<lambda>_.
     bind_action File_shlock (\<lambda>_.
     bind_action func (\<lambda>out.
     bind_action handle_close (\<lambda>_.
     return_action out))))"

definition write_inner :: "'a action \<Rightarrow> 'a action" where
  "write_inner func =
     bind_action (open_file Append) (\<lambda>_.
     bind_action File_exlock (\<lambda>_.
     bind_action func (\<lambda>out.
     bind_action handle_close (\<lambda>_.
     return_action out))))"

section \<open>Tags\<close>

text \<open>
  \<^verbatim>\<open>set([str(tag) for tag in tags])\<close>. Tags and keys are byte strings, on which
  \<^verbatim>\<open>str\<close> is the identity. A Python set is modelled by a list without repetitions;
  the order in which the interpreter enumerates a set is not fixed by the language, and
  the statements of the claims do not depend on the order chosen here.
\<close>

definition str :: "string \<Rightarrow> string" where
  "str v = v"

definition py_set :: "string list \<Rightarrow> string list" where
  "py_set vs = remdups vs"

definition get_node_tags :: "string list action" where
  "get_node_tags s =
     (case tags_node (h5 s) of
        None \<Rightarrow> (Inl (NoSuchNodeError ''tags''), s)
      | Some table \<Rightarrow> (Inr table, s))"

definition get_tags_body :: "string list action" where
  "get_tags_body = bind_action get_node_tags (\<lambda>table. return_action (map (\<lambda>x. x) table))"

definition get_tags :: "string list action" where
  "get_tags = read_inner get_tags_body"

text \<open>
  The loop of lines 315 to 318 and of lines 356 to 359 (and their copies for
  categories): for each row of the table, in row order, and each given string, the
  string (resp. the number of the row) is collected when the row's key equals it.
\<close>

fun present_loop :: "('r \<Rightarrow> string) \<Rightarrow> string list \<Rightarrow> 'r list \<Rightarrow> string list" where
  "present_loop key given [] = []"
| "present_loop key given (row # table) =
     filter (\<lambda>g. key row = g) given @ present_loop key given table"

fun rowlist_loop :: "('r \<Rightarrow> string) \<Rightarrow> string list \<Rightarrow> nat \<Rightarrow> 'r list \<Rightarrow> nat list" where
  "rowlist_loop key given nrow [] = []"
| "rowlist_loop key given nrow (row # table) =
     map (\<lambda>g. nrow) (filter (\<lambda>g. key row = g) given)
       @ rowlist_loop key given (Suc nrow) table"

text \<open>\<^verbatim>\<open>table.row['tag'] = tag; table.row.append()\<close>.\<close>

definition append_tag :: "string \<Rightarrow> state \<Rightarrow> state" where
  "append_tag tag s =
     s\<lparr>h5 := (h5 s)\<lparr>tags_node := map_option (\<lambda>table. table @ [Tags_row tag]) (tags_node (h5 s))\<rparr>,
       events := events s @ [Append_row ''tags'']\<rparr>"

definition add_tags_body :: "string list \<Rightarrow> unit action" where
  "add_tags_body tags =
     bind_action get_node_tags (\<lambda>table s.
       let tags1 = py_set (map str tags);
           tags_present = present_loop (\<lambda>row. row) tags1 table;
           tags2 = filter (\<lambda>tag. tag \<notin> set (py_set tags_present)) tags1
       in (Inr (), fold append_tag tags2 s))"

definition add_tags :: "string list \<Rightarrow> unit action" where
  "add_tags tags = write_inner (add_tags_body tags)"

text \<open>
  \<^verbatim>\<open>table.remove()\<close> followed by \<^verbatim>\<open>create_table('/', 'tags', self._Tags, 'tags')\<close>.
\<close>

definition recreate_tags :: "state \<Rightarrow> state" where
  "recreate_tags s =
     s\<lparr>h5 := (h5 s)\<lparr>tags_node := Some []\<rparr>,
       events := events s @ [Remove_table ''tags'', Create_table ''tags'']\<rparr>"

text \<open>
  The loop of lines 371 to 373: \<^verbatim>\<open>for i in rowlist: table.remove_row(i-j); j=j+1\<close>.
  It returns the exception that ended it, if any, the rows left, and the arguments of
  the \<^verbatim>\<open>remove_row\<close> calls made.
\<close>

fun remove_rows_loop :: "nat list \<Rightarrow> nat \<Rightarrow> 'r list \<Rightarrow> error option \<times> 'r list \<times> int list" where
  "remove_rows_loop [] j table = (None, table, [])"
| "remove_rows_loop (i # rowlist) j table =
     (case remove_row (int i - int j) table of
        Inl e \<Rightarrow> (Some e, table, [int i - int j])
      | Inr table' \<Rightarrow>
          (case remove_rows_loop rowlist (j + 1) table' of
             (r, table'', calls) \<Rightarrow> (r, table'', (int i - int j) # calls)))"

definition del_tags_body :: "string list \<Rightarrow> bool \<Rightarrow> unit action" where
  "del_tags_body tags purge =
     bind_action get_node_tags (\<lambda>table s.
       if purge then (Inr (), recreate_tags s)
       else
         let tags1 = py_set (map str tags);
             rowlist = rowlist_loop (\<lambda>row. row) tags1 0 table
         in if length rowlist = length table then (Inr (), recreate_tags s)
            else
              (case remove_rows_loop (sort rowlist) 0 table of
                 (r, table', calls) \<Rightarrow>
                   ((case r of None \<Rightarrow> Inr () | Some e \<Rightarrow> Inl e),
                    s\<lparr>h5 := (h5 s)\<lparr>tags_node := Some table'\<rparr>,
                      events := events s @ map (Remove_row ''tags'') calls\<rparr>)))"

definition del_tags :: "string list \<Rightarrow> bool \<Rightarrow> unit action" where
  "del_tags tags purge = write_inner (del_tags_body tags purge)"

section \<open>Categories\<close>

text \<open>
  A Python dictionary is an association list whose keys are pairwise different, in the
  order in which the interpreter enumerates it. \<^verbatim>\<open>d.keys()\<close> is a list of its own
  (Python 2), so popping keys while looping over it is safe; \<^verbatim>\<open>d[key]\<close> raises
  \<^verbatim>\<open>KeyError\<close> when the key is missing.
\<close>

type_synonym dict = "(string \<times> string) list"

definition dict_keys :: "dict \<Rightarrow> string list" where
  "dict_keys d = map fst d"

definition dict_getitem :: "dict \<Rightarrow> string \<Rightarrow> error + string" where
  "dict_getitem d key = (case map_of d key of None \<Rightarrow> Inl (KeyError key) | Some v \<Rightarrow> Inr v)"

definition dict_pop :: "string \<Rightarrow> dict \<Rightarrow> dict" where
  "dict_pop key d = filter (\<lambda>kv. fst kv \<noteq> key) d"

fun dict_setitem :: "string \<Rightarrow> string \<Rightarrow> dict \<Rightarrow> dict" where
  "dict_setitem key v [] = [(key, v)]"
| "dict_setitem key v (kv # d) =
     (if fst kv = key then (key, v) # d else kv # dict_setitem key v d)"

definition get_node_categories :: "(string \<times> string) list action" where
  "get_node_categories s =
     (case categories_node (h5 s) of
        None \<Rightarrow> (Inl (NoSuchNodeError ''categories''), s)
      | Some table \<Rightarrow> (Inr table, s))"

text \<open>
  \<^verbatim>\<open>{ x['category']: x['value'] for x in table.iterrows() }\<close>: the rows are entered
  in row order, a later row replacing the value of an earlier one with the same key.
\<close>

definition get_categories_body :: "dict action" where
  "get_categories_body =
     bind_action get_node_categories (\<lambda>table.
       return_action (fold (\<lambda>x d. dict_setitem (fst x) (snd x) d) table []))"

definition get_categories :: "dict action" where
  "get_categories = read_inner get_categories_body"

text \<open>
  Lines 406 to 413. For the row with number \<open>nrow\<close>, the inner loop runs over a copy of
  the keys; on a match it assigns the value field of the row, calls \<^verbatim>\<open>row.update()\<close>
  and pops the key from the dictionary.
\<close>

fun update_inner ::
  "string list \<Rightarrow> nat \<Rightarrow> string \<times> string \<Rightarrow> dict \<Rightarrow>
     error option \<times> (string \<times> string) \<times> dict \<times> event list" where
  "update_inner [] nrow row categories = (None, row, categories, [])"
| "update_inner (key # keys) nrow row categories =
     (if fst row = key then
        (case dict_getitem categories key of
           Inl e \<Rightarrow> (Some e, row, categories, [])
         | Inr v \<Rightarrow>
             (case update_inner keys nrow (fst row, StringCol 36 (str v))
                     (dict_pop key categories) of
                (r, row', categories', evs) \<Rightarrow>
                  (r, row', categories', Update_row ''categories'' nrow # evs)))
      else update_inner keys nrow row categories)"

fun update_loop ::
  "(string \<times> string) list \<Rightarrow> nat \<Rightarrow> dict \<Rightarrow>
     error option \<times> (string \<times> string) list \<times> dict \<times> event list" where
  "update_loop [] nrow categories = (None, [], categories, [])"
| "update_loop (row # table) nrow categories =
     (case update_inner (dict_keys categories) nrow row categories of
        (Some e, row', categories', evs) \<Rightarrow> (Some e, row' # table, categories', evs)
      | (None, row', categories', evs) \<Rightarrow>
          (case update_loop table (Suc nrow) categories' of
             (r, table', categories'', evs') \<Rightarrow>
               (r, row' # table', categories'', evs @ evs')))"

text \<open>Lines 416 to 419: the keys left in the dictionary are appended as new rows.\<close>

fun append_loop :: "string list \<Rightarrow> dict \<Rightarrow> error option \<times> (string \<times> string) list" where
  "append_loop [] categories = (None, [])"
| "append_loop (key # keys) categories =
     (case dict_getitem categories key of
        Inl e \<Rightarrow> (Some e, [])
      | Inr v \<Rightarrow>
          (case append_loop keys categories of
             (r, rows) \<Rightarrow> (r, Categories_row key (str v) # rows)))"

definition add_categories_body :: "dict \<Rightarrow> unit action" where
  "add_categories_body categories =
     bind_action get_node_categories (\<lambda>table s.
       case update_loop table 0 categories of
         (Some e, table', categories', evs) \<Rightarrow>
           (Inl e, s\<lparr>h5 := (h5 s)\<lparr>categories_node := Some table'\<rparr>,
                     events := events s @ evs\<rparr>)
       | (None, table', categories', evs) \<Rightarrow>
           (case append_loop (dict_keys categories') categories' of
              (r, rows) \<Rightarrow>
                ((case r of None \<Rightarrow> Inr () | Some e \<Rightarrow> Inl e),
                 s\<lparr>h5 := (h5 s)\<lparr>categories_node := Some (table' @ rows)\<rparr>,
                   events := events s @ evs @ map (\<lambda>row. Append_row ''categories'') rows\<rparr>)))"

definition add_categories :: "dict \<Rightarrow> unit action" where
  "add_categories categories = write_inner (add_categories_body categories)"

definition recreate_categories :: "state \<Rightarrow> state" where
  "recreate_categories s =
     s\<lparr>h5 := (h5 s)\<lparr>categories_node := Some []\<rparr>,
       events := events s @ [Remove_table ''categories'', Create_table ''categories'']\<rparr>"

definition del_categories_body :: "string list \<Rightarrow> bool \<Rightarrow> unit action" where
  "del_categories_body categories purge =
     bind_action get_node_categories (\<lambda>table s.
       if purge then (Inr (), recreate_categories s)
       else
         let categories1 = py_set (map str categories);
             rowlist = rowlist_loop fst categories1 0 table
         in if length rowlist = length table then (Inr (), recreate_categories s)
            else
              (case remove_rows_loop (sort rowlist) 0 table of
                 (r, table', calls) \<Rightarrow>
                   ((case r of None \<Rightarrow> Inr () | Some e \<Rightarrow> Inl e),
                    s\<lparr>h5 := (h5 s)\<lparr>categories_node := Some table'\<rparr>,
                      events := events s @ map (Remove_row ''categories'') calls\<rparr>)))"

definition del_categories :: "string list \<Rightarrow> bool \<Rightarrow> unit action" where
  "del_categories categories purge = write_inner (del_categories_body categories purge)"

section \<open>Creating the file\<close>

text \<open>
  \<^verbatim>\<open>ContainerFile.create\<close> (lines 183 to 244). The keyword arguments are the record
  \<open>kwargs\<close>; \<^verbatim>\<open>kwargs.pop('name', classname)\<close> and the other three \<^verbatim>\<open>pop\<close>s supply
  the defaults. The values of \<^verbatim>\<open>str(uuid4())\<close> and of
  \<^verbatim>\<open>os.path.dirname(self.filename)\<close> come from the libraries and are parameters.
  \<^verbatim>\<open>None\<close> assigned to the string column \<^verbatim>\<open>abspath\<close> is stored as its text.
\<close>

record kwargs =
  kw_name :: "string option"
  kw_coordinator :: "string option"
  kw_tags :: "string list"
  kw_categories :: dict

definition no_kwargs :: kwargs where
  "no_kwargs = \<lparr>kw_name = None, kw_coordinator = None, kw_tags = [], kw_categories = []\<rparr>"

definition create_meta :: "string \<Rightarrow> string \<Rightarrow> string \<Rightarrow> string \<Rightarrow> state \<Rightarrow> state" where
  "create_meta u n c l s =
     s\<lparr>h5 := (h5 s)\<lparr>meta_node := Some [Meta_row u n c l]\<rparr>,
       events := events s @ [Create_table ''meta'', Append_row ''meta'']\<rparr>"

definition create_coordinator :: "string option \<Rightarrow> state \<Rightarrow> state" where
  "create_coordinator p s =
     s\<lparr>h5 := (h5 s)\<lparr>coordinator_node :=
               Some [Coordinator_row (case p of None \<Rightarrow> ''None'' | Some a \<Rightarrow> a)]\<rparr>,
       events := events s @ [Create_table ''coordinator'', Append_row ''coordinator'']\<rparr>"

definition create_tags :: "state \<Rightarrow> state" where
  "create_tags s =
     s\<lparr>h5 := (h5 s)\<lparr>tags_node := Some []\<rparr>, events := events s @ [Create_table ''tags'']\<rparr>"

definition create_categories :: "state \<Rightarrow> state" where
  "create_categories s =
     s\<lparr>h5 := (h5 s)\<lparr>categories_node := Some []\<rparr>,
       events := events s @ [Create_table ''categories'']\<rparr>"

definition append_category :: "string \<times> string \<Rightarrow> state \<Rightarrow> state" where
  "append_category row s =
     s\<lparr>h5 := (h5 s)\<lparr>categories_node :=
               map_option (\<lambda>table. table @ [row]) (categories_node (h5 s))\<rparr>,
       events := events s @ [Append_row ''categories'']\<rparr>"

definition create_body :: "string \<Rightarrow> kwargs \<Rightarrow> string \<Rightarrow> string \<Rightarrow> unit action" where
  "create_body classname kw uuid4 dirname s =
     (let s1 = create_meta uuid4 (case kw_name kw of None \<Rightarrow> classname | Some n \<Rightarrow> n)
                 classname dirname s;
          s2 = create_coordinator (kw_coordinator kw) s1;
          s3 = fold (\<lambda>tag. append_tag (str tag)) (kw_tags kw) (create_tags s2);
          s4 = create_categories s3
      in case append_loop (dict_keys (kw_categories kw)) (kw_categories kw) of
           (r, rows) \<Rightarrow>
             ((case r of None \<Rightarrow> Inr () | Some e \<Rightarrow> Inl e), fold append_category rows s4))"

definition create :: "string \<Rightarrow> kwargs \<Rightarrow> string \<Rightarrow> string \<Rightarrow> unit action" where
  "create classname kw uuid4 dirname =
     bind_action (open_file Write) (\<lambda>_.
     bind_action File_exlock (\<lambda>_.
     bind_action (create_body classname kw uuid4 dirname) (\<lambda>_.
     handle_close)))"

text \<open>
  \<^verbatim>\<open>ContainerFile.__init__\<close> (lines 145 to 181): \<^verbatim>\<open>File.__init__\<close> sets the handle
  to \<^verbatim>\<open>None\<close>; the file is created when it does not exist.
\<close>

definition ContainerFile_init :: "string \<Rightarrow> kwargs \<Rightarrow> string \<Rightarrow> string \<Rightarrow> unit action" where
  "ContainerFile_init classname kw uuid4 dirname s =
     (let s0 = s\<lparr>handle := No_handle\<rparr>
      in if \<not> check_existence s0 then create classname kw uuid4 dirname s0
         else (Inr (), s0))"

section \<open>Names and attributes: the Sim file\<close>

text \<open>
  A name in a method body is looked up among the method's parameters, the names bound at
  module level (the imports of lines 6 to 12 and the five classes), and the builtins;
  \<open>builtins\<close> lists the builtin names the module refers to. A name found in none of the
  three raises \<^verbatim>\<open>NameError\<close>.
\<close>

definition module_globals :: "string list" where
  "module_globals =
     [''Aggregators'', ''Workers'', ''uuid4'', ''tables'', ''fcntl'', ''os'', ''wraps'',
      ''File'', ''ContainerFile'', ''SimFile'', ''DatabaseFile'', ''DataFile'']"

definition builtins :: "string list" where
  "builtins =
     [''object'', ''super'', ''str'', ''set'', ''list'', ''dict'', ''len'',
      ''None'', ''True'', ''False'']"

definition load_name :: "string list \<Rightarrow> string \<Rightarrow> unit action" where
  "load_name params n s =
     (if n \<in> set params \<or> n \<in> set module_globals \<or> n \<in> set builtins then (Inr (), s)
      else (Inl (NameError n), s))"

text \<open>
  The attributes of a \<^verbatim>\<open>SimFile\<close> instance: those set by \<^verbatim>\<open>File.__init__\<close>, and
  the names defined in the bodies of the classes \<^verbatim>\<open>SimFile\<close>, \<^verbatim>\<open>ContainerFile\<close>
  and \<^verbatim>\<open>File\<close>. The locking methods of \<^verbatim>\<open>File\<close> begin with an underscore.
\<close>

definition instance_attrs :: "string list" where
  "instance_attrs = [''filename'', ''handle'', ''logger'']"

definition SimFile_attrs :: "string list" where
  "SimFile_attrs =
     [''UniverseTopology'', ''UniverseTrajectory'', ''Selection'', ''__init__'', ''create'']"

definition ContainerFile_attrs :: "string list" where
  "ContainerFile_attrs =
     [''_Meta'', ''_Coordinator'', ''_Tags'', ''_Categories'', ''__init__'', ''create'',
      ''_read'', ''_write'', ''get_tags'', ''add_tags'', ''del_tags'', ''get_categories'',
      ''add_categories'', ''del_categories'', ''_open_r'', ''_open_w'', ''_close'']"

definition File_attrs :: "string list" where
  "File_attrs = [''__init__'', ''_shlock'', ''_exlock'', ''_unlock'', ''_check_existence'']"

definition File_unlock :: "bool action" where
  "File_unlock s =
     (case handle s of
        No_handle \<Rightarrow> (Inl TypeError, s)
      | Closed_handle \<Rightarrow> (Inl ClosedFileError, s)
      | Open_handle m l \<Rightarrow> (Inr True, s\<lparr>handle := Open_handle m Unlocked\<rparr>))"

text \<open>
  \<^verbatim>\<open>self.attr()\<close>, a call without arguments of an attribute of the instance: a
  missing attribute raises \<^verbatim>\<open>AttributeError\<close>; the three locking methods run; any
  other attribute is not callable without arguments.
\<close>

definition call_self :: "string \<Rightarrow> bool action" where
  "call_self attr s =
     (if attr \<notin> set (instance_attrs @ SimFile_attrs @ ContainerFile_attrs @ File_attrs)
      then (Inl (AttributeError attr), s)
      else if attr = ''_shlock'' then File_shlock s
      else if attr = ''_exlock'' then File_exlock s
      else if attr = ''_unlock'' then File_unlock s
      else (Inl TypeError, s))"

text \<open>
  \<^verbatim>\<open>SimFile.__init__\<close> (lines 543 to 553). The arguments of the call to the base
  constructor are evaluated before it is entered: \<^verbatim>\<open>super\<close>, \<^verbatim>\<open>SimFile\<close>,
  \<^verbatim>\<open>self\<close>, then \<^verbatim>\<open>location\<close>, \<^verbatim>\<open>logger\<close> and \<^verbatim>\<open>kwargs\<close>.
\<close>

definition SimFile_init_params :: "string list" where
  "SimFile_init_params = [''self'', ''filename'', ''logger'', ''kwargs'']"

definition SimFile_init :: "kwargs \<Rightarrow> string \<Rightarrow> string \<Rightarrow> unit action" where
  "SimFile_init kw uuid4 dirname =
     bind_action (load_name SimFile_init_params ''super'') (\<lambda>_.
     bind_action (load_name SimFile_init_params ''SimFile'') (\<lambda>_.
     bind_action (load_name SimFile_init_params ''self'') (\<lambda>_.
     bind_action (load_name SimFile_init_params ''location'') (\<lambda>_.
     bind_action (load_name SimFile_init_params ''logger'') (\<lambda>_.
     bind_action (load_name SimFile_init_params ''kwargs'') (\<lambda>_.
     ContainerFile_init ''Sim'' kw uuid4 dirname))))))"

text \<open>
  \<^verbatim>\<open>SimFile.create\<close> (lines 555 to 586): the base \<^verbatim>\<open>create\<close>, then the file is
  opened again for appending, \<^verbatim>\<open>self.exlock()\<close> is called, the group
  \<^verbatim>\<open>universes\<close> is created and the file closed.
\<close>

definition create_group_universes :: "unit action" where
  "create_group_universes s = (Inr (), s\<lparr>h5 := (h5 s)\<lparr>universes_group := True\<rparr>\<rparr>)"

definition SimFile_create :: "string \<Rightarrow> kwargs \<Rightarrow> string \<Rightarrow> string \<Rightarrow> unit action" where
  "SimFile_create classname kw uuid4 dirname =
     bind_action (create classname kw uuid4 dirname) (\<lambda>_.
     bind_action (open_file Append) (\<lambda>_.
     bind_action (call_self ''exlock'') (\<lambda>_.
     bind_action create_group_universes (\<lambda>_.
     handle_close))))"

section \<open>Notions used in the statements\<close>

text \<open>
  The state in which a decorated method starts: the file opened in mode \<open>m\<close> and the
  lock \<open>l\<close> held; and the state after \<^verbatim>\<open>self.handle.close()\<close>.
\<close>

definition after_open :: "mode \<Rightarrow> lock \<Rightarrow> state \<Rightarrow> state" where
  "after_open m l s = (snd (open_file m s))\<lparr>handle := Open_handle m l\<rparr>"

definition closed :: "state \<Rightarrow> state" where
  "closed s = s\<lparr>handle := Closed_handle\<rparr>"

text \<open>
  The numbers of the rows of a table that satisfy \<open>P\<close>, in ascending order, counted
  from \<open>n\<close> by \<open>match_from\<close> and from 0 by \<open>matching_rows\<close>; and the row numbers
  \<open>shifted\<close>: the \<open>j\<close>-th of them (from 0) lowered by \<open>j\<close>.
\<close>

fun match_from :: "('r \<Rightarrow> bool) \<Rightarrow> nat \<Rightarrow> 'r list \<Rightarrow> nat list" where
  "match_from P n [] = []"
| "match_from P n (x # xs) =
     (if P x then n # match_from P (Suc n) xs else match_from P (Suc n) xs)"

definition matching_rows :: "('r \<Rightarrow> bool) \<Rightarrow> 'r list \<Rightarrow> nat list" where
  "matching_rows P table = filter (\<lambda>i. P (table ! i)) [0..<length table]"

definition shifted :: "nat list \<Rightarrow> int list" where
  "shifted rowlist = map (\<lambda>(j, i). int i - int j) (enumerate 0 rowlist)"

text \<open>A sequence of \<^verbatim>\<open>add_tags\<close> calls, each with its own tags.\<close>

fun add_tags_calls :: "string list list \<Rightarrow> unit action" where
  "add_tags_calls [] s = (Inr (), s)"
| "add_tags_calls (tags # calls) s =
     (case add_tags tags s of
        (Inl e, s') \<Rightarrow> (Inl e, s')
      | (Inr _, s') \<Rightarrow> add_tags_calls calls s')"

text \<open>
  What \<^verbatim>\<open>add_categories\<close> makes of an existing row, and the entries of the
  dictionary that have no row in the table.
\<close>

definition upsert_row :: "dict \<Rightarrow> string \<times> string \<Rightarrow> string \<times> string" where
  "upsert_row categories row =
     (case map_of categories (fst row) of
        None \<Rightarrow> row
      | Some v \<Rightarrow> (fst row, StringCol 36 v))"

definition pending :: "dict \<Rightarrow> (string \<times> string) list \<Rightarrow> dict" where
  "pending categories table = filter (\<lambda>kv. fst kv \<notin> fst ` set table) categories"

text \<open>
  The rows that the last loop of \<^verbatim>\<open>create\<close> (lines 238 to 241) appends for the
  dictionary \<open>d\<close>.
\<close>

definition created_rows :: "dict \<Rightarrow> (string \<times> string) list" where
  "created_rows d = snd (append_loop (dict_keys d) d)"

text \<open>
  Concrete states: no file on disk; a file on disk that holds no table; and the file
  that \<^verbatim>\<open>ContainerFile(filename, logger, 'Sim', tags=..., categories=...)\<close> builds
  where there was none.
\<close>

definition no_file :: state where
  "no_file = \<lparr>on_disk = False, h5 = empty_h5, handle = No_handle, events = []\<rparr>"

definition bare_file :: state where
  "bare_file = \<lparr>on_disk = True, h5 = empty_h5, handle = No_handle, events = []\<rparr>"

definition created :: "string list \<Rightarrow> dict \<Rightarrow> state" where
  "created tags categories =
     snd (ContainerFile_init ''Sim'' (no_kwargs\<lparr>kw_tags := tags, kw_categories := categories\<rparr>)
            ''0f8fad5b-d9cb-469f-a165-70867728950e'' ''/data/sims'' no_file)"

text \<open>A string of 37 characters, one more than a tag or category column holds.\<close>

definition long37 :: string where
  "long37 = replicate 37 CHR ''a''"

section \<open>Lemmas\<close>

lemma write_inner_run:
  "write_inner func s =
     (case func (after_open Append Exclusive s) of
        (Inl e, s') \<Rightarrow> (Inl e, s')
      | (Inr out, s') \<Rightarrow>
          (if handle s' = No_handle then (Inl (AttributeError ''close''), s')
           else (Inr out, closed s')))"
  by (simp add: write_inner_def bind_action_def open_file_def File_exlock_def File_shlock_def
      lockf_EX_def return_action_def handle_close_def after_open_def closed_def
      split: prod.splits sum.splits handle.splits)

lemma read_inner_run:
  "on_disk s \<Longrightarrow> read_inner func s =
     (case func (after_open Read Shared s) of
        (Inl e, s') \<Rightarrow> (Inl e, s')
      | (Inr out, s') \<Rightarrow>
          (if handle s' = No_handle then (Inl (AttributeError ''close''), s')
           else (Inr out, closed s')))"
  by (simp add: read_inner_def bind_action_def open_file_def File_shlock_def
      return_action_def handle_close_def after_open_def closed_def
      split: prod.splits sum.splits handle.splits)

lemma read_inner_missing:
  "\<not> on_disk s \<Longrightarrow> read_inner func s = (Inl IOError, s)"
  by (simp add: read_inner_def bind_action_def open_file_def)

lemma filter_eq_distinct:
  "distinct given \<Longrightarrow> filter (\<lambda>g. k = g) given = (if k \<in> set given then [k] else [])"
  by (induction given) auto

lemma rowlist_loop_match:
  "distinct given \<Longrightarrow>
   rowlist_loop key given n table = match_from (\<lambda>r. key r \<in> set given) n table"
  by (induction table arbitrary: n) (simp_all add: filter_eq_distinct)

lemma match_from_ge: "i \<in> set (match_from P n xs) \<Longrightarrow> n \<le> i"
  by (induction xs arbitrary: n) (auto split: if_splits dest: Suc_leD)

lemma match_from_sorted: "sorted (match_from P n xs)"
  by (induction xs arbitrary: n) (auto dest: match_from_ge Suc_leD)

lemma match_from_length: "length (match_from P n xs) = length (filter P xs)"
  by (induction xs arbitrary: n) auto

lemma match_from_shift: "match_from P (Suc n) xs = map Suc (match_from P n xs)"
  by (induction xs arbitrary: n) auto

lemma match_from_rows: "match_from P 0 xs = matching_rows P xs"
proof (induction xs)
  case Nil
  show ?case by (simp add: matching_rows_def)
next
  case (Cons x xs)
  have "[0..<length (x # xs)] = 0 # map Suc [0..<length xs]"
    by (simp add: upt_conv_Cons map_Suc_upt del: upt_Suc)
  then show ?case
    using Cons by (simp add: matching_rows_def match_from_shift filter_map comp_def del: upt_Suc)
qed

lemma remove_row_mid:
  "kept @ xs \<noteq> [] \<Longrightarrow> remove_row (int (length kept)) (kept @ x # xs) = Inr (kept @ xs)"
proof -
  assume ne: "kept @ xs \<noteq> []"
  have n: "nat (int (length kept)) = length kept" by simp
  from ne have "length (kept @ x # xs) \<noteq> 1" by (cases kept) auto
  then show ?thesis
    unfolding remove_row_def n by simp
qed

lemma remove_rows_loop_filter:
  "kept @ filter (\<lambda>x. \<not> P x) xs \<noteq> [] \<Longrightarrow>
   remove_rows_loop (match_from P (length kept + j) xs) j (kept @ xs) =
     (None, kept @ filter (\<lambda>x. \<not> P x) xs,
      map (\<lambda>(k, i). int i - int k) (enumerate j (match_from P (length kept + j) xs)))"
proof (induction xs arbitrary: kept j)
  case Nil
  show ?case by simp
next
  case (Cons x xs)
  show ?case
  proof (cases "P x")
    case True
    from Cons.prems True have ne: "kept @ filter (\<lambda>x. \<not> P x) xs \<noteq> []" by simp
    then have ne': "kept @ xs \<noteq> []" by auto
    have "remove_rows_loop (match_from P (length kept + (j + 1)) xs) (j + 1) (kept @ xs) =
      (None, kept @ filter (\<lambda>x. \<not> P x) xs,
       map (\<lambda>(k, i). int i - int k) (enumerate (j + 1) (match_from P (length kept + (j + 1)) xs)))"
      by (rule Cons.IH [OF ne])
    with True ne' show ?thesis
      by (simp add: remove_row_mid)
  next
    case False
    have ne: "(kept @ [x]) @ filter (\<lambda>x. \<not> P x) xs \<noteq> []" by simp
    from Cons.IH [OF ne, of j] False show ?thesis by simp
  qed
qed

lemma remove_rows_loop_rows:
  assumes "\<exists>x \<in> set table. \<not> P x"
  shows "remove_rows_loop (matching_rows P table) 0 table =
           (None, filter (\<lambda>x. \<not> P x) table, shifted (matching_rows P table))"
proof -
  from assms have "[] @ filter (\<lambda>x. \<not> P x) table \<noteq> []"
    by (auto simp: filter_empty_conv)
  from remove_rows_loop_filter [OF this, of 0] show ?thesis
    by (simp add: match_from_rows shifted_def)
qed

lemma after_open_simps [simp]:
  "handle (after_open m l s) = Open_handle m l"
  "events (after_open m l s) = events s"
  "on_disk s \<Longrightarrow> h5 (after_open Append l s) = h5 s"
  "on_disk s \<Longrightarrow> h5 (after_open Read l s) = h5 s"
  "on_disk (after_open Append l s)"
  "on_disk s \<Longrightarrow> on_disk (after_open Read l s)"
  by (simp_all add: after_open_def open_file_def split: mode.splits)

lemma closed_simps [simp]:
  "handle (closed s) = Closed_handle"
  "events (closed s) = events s"
  "h5 (closed s) = h5 s"
  "on_disk (closed s) = on_disk s"
  by (simp_all add: closed_def)

lemma length_filter_all: "length (filter P xs) = length xs \<longleftrightarrow> (\<forall>x \<in> set xs. P x)"
proof (induction xs)
  case Nil
  show ?case by simp
next
  case (Cons x xs)
  have "length (filter P xs) \<le> length xs" by (rule length_filter_le)
  then have "length (filter P xs) \<noteq> Suc (length xs)" by arith
  with Cons show ?case by auto
qed

lemma py_set_simps [simp]: "distinct (py_set vs)" "set (py_set vs) = set vs"
  by (simp_all add: py_set_def)

lemma rowlist_all:
  "length (rowlist_loop key (py_set given) 0 table) = length table
     \<longleftrightarrow> (\<forall>row \<in> set table. key row \<in> set given)"
  by (simp add: rowlist_loop_match match_from_length length_filter_all)

lemma sort_rowlist:
  "sort (rowlist_loop key (py_set given) 0 table) = matching_rows (\<lambda>row. key row \<in> set given) table"
  by (simp add: rowlist_loop_match match_from_sorted sort_key_id_if_sorted flip: match_from_rows)

lemma del_tags_body_run:
  assumes "tags_node (h5 s) = Some table"
  shows "del_tags_body tags False s =
     (if \<forall>row \<in> set table. row \<in> set tags then (Inr (), recreate_tags s)
      else (Inr (), s\<lparr>h5 := (h5 s)\<lparr>tags_node := Some (filter (\<lambda>row. row \<notin> set tags) table)\<rparr>,
                     events := events s @ map (Remove_row ''tags'')
                       (shifted (matching_rows (\<lambda>row. row \<in> set tags) table))\<rparr>))"
  using assms
  by (simp add: del_tags_body_def bind_action_def get_node_tags_def Let_def str_def
      rowlist_all sort_rowlist remove_rows_loop_rows)

lemma del_tags_body_purge:
  assumes "tags_node (h5 s) = Some table"
  shows "del_tags_body tags True s = (Inr (), recreate_tags s)"
  using assms by (simp add: del_tags_body_def bind_action_def get_node_tags_def)

lemma del_categories_body_run:
  assumes "categories_node (h5 s) = Some table"
  shows "del_categories_body keys False s =
     (if \<forall>row \<in> set table. fst row \<in> set keys then (Inr (), recreate_categories s)
      else (Inr (), s\<lparr>h5 := (h5 s)\<lparr>categories_node :=
                            Some (filter (\<lambda>row. fst row \<notin> set keys) table)\<rparr>,
                     events := events s @ map (Remove_row ''categories'')
                       (shifted (matching_rows (\<lambda>row. fst row \<in> set keys) table))\<rparr>))"
  using assms
  by (simp add: del_categories_body_def bind_action_def get_node_categories_def Let_def str_def
      rowlist_all sort_rowlist remove_rows_loop_rows)

lemma del_categories_body_purge:
  assumes "categories_node (h5 s) = Some table"
  shows "del_categories_body keys True s = (Inr (), recreate_categories s)"
  using assms by (simp add: del_categories_body_def bind_action_def get_node_categories_def)

lemma rstrip_nul_Nil [simp]: "rstrip_nul [] = []"
  by (simp add: rstrip_nul_def)

lemma rstrip_nul_last: "v \<noteq> [] \<Longrightarrow> last v \<noteq> CHR 0x00 \<Longrightarrow> rstrip_nul v = v"
  by (cases v rule: rev_cases) (simp_all add: rstrip_nul_def)

lemma StringCol_fits:
  "length v \<le> n \<Longrightarrow> v = [] \<or> last v \<noteq> CHR 0x00 \<Longrightarrow> StringCol n v = v"
  by (cases "v = []") (simp_all add: StringCol_def rstrip_nul_last)

lemma recreate_simps [simp]:
  "tags_node (h5 (recreate_tags s)) = Some []"
  "events (recreate_tags s) = events s @ [Remove_table ''tags'', Create_table ''tags'']"
  "handle (recreate_tags s) = handle s"
  "categories_node (h5 (recreate_categories s)) = Some []"
  "events (recreate_categories s)
     = events s @ [Remove_table ''categories'', Create_table ''categories'']"
  "handle (recreate_categories s) = handle s"
  by (simp_all add: recreate_tags_def recreate_categories_def)

lemma filter_none: "\<forall>x \<in> set table. \<not> P x \<Longrightarrow> filter (\<lambda>x. \<not> P x) table = table"
  by (induction table) auto

lemma map_str [simp]: "map str vs = vs"
  by (induction vs) (simp_all add: str_def)

lemma present_loop_set:
  "set (present_loop key given table) = {g \<in> set given. g \<in> key ` set table}"
  by (induction table) auto

lemma fold_append_tag:
  "tags_node (h5 s) = Some table \<Longrightarrow>
   fold append_tag new s =
     s\<lparr>h5 := (h5 s)\<lparr>tags_node := Some (table @ map Tags_row new)\<rparr>,
       events := events s @ map (\<lambda>tag. Append_row ''tags'') new\<rparr>"
proof (induction new arbitrary: s table)
  case Nil
  then show ?case by simp
next
  case (Cons tag new)
  have "tags_node (h5 (append_tag tag s)) = Some (table @ [Tags_row tag])"
    using Cons.prems by (simp add: append_tag_def)
  from Cons.IH [OF this] show ?case
    by (simp add: append_tag_def)
qed

lemma add_tags_body_run:
  assumes "tags_node (h5 s) = Some table"
  shows "add_tags_body tags s =
     (Inr (), s\<lparr>h5 := (h5 s)\<lparr>tags_node :=
                   Some (table @ map Tags_row (filter (\<lambda>tag. tag \<notin> set table) (remdups tags)))\<rparr>,
               events := events s @ map (\<lambda>tag. Append_row ''tags'')
                   (filter (\<lambda>tag. tag \<notin> set table) (remdups tags))\<rparr>)"
proof -
  have "filter (\<lambda>tag. tag \<notin> set (py_set (present_loop (\<lambda>row. row) (py_set (map str tags)) table)))
          (py_set (map str tags)) = filter (\<lambda>tag. tag \<notin> set table) (remdups tags)"
    by (rule filter_cong) (auto simp: present_loop_set py_set_def)
  with assms show ?thesis
    by (simp add: add_tags_body_def bind_action_def get_node_tags_def Let_def fold_append_tag)
qed

lemma add_tags_run:
  assumes "on_disk s" "tags_node (h5 s) = Some table"
  shows "add_tags tags s =
     (Inr (), closed ((after_open Append Exclusive s)
        \<lparr>h5 := (h5 s)\<lparr>tags_node :=
                   Some (table @ map Tags_row (filter (\<lambda>tag. tag \<notin> set table) (remdups tags)))\<rparr>,
         events := events s @ map (\<lambda>tag. Append_row ''tags'')
                   (filter (\<lambda>tag. tag \<notin> set table) (remdups tags))\<rparr>))"
  using assms by (simp add: add_tags_def write_inner_run add_tags_body_run)

lemma map_fits: "\<forall>t \<in> set ts. f t = t \<Longrightarrow> map f ts = ts"
  by (induction ts) auto

lemma add_tags_fitting:
  assumes "on_disk s" "tags_node (h5 s) = Some table" "\<forall>t \<in> set tags. StringCol 36 t = t"
  shows "fst (add_tags tags s) = Inr ()"
    and "on_disk (snd (add_tags tags s))"
    and "tags_node (h5 (snd (add_tags tags s)))
           = Some (table @ filter (\<lambda>tag. tag \<notin> set table) (remdups tags))"
proof -
  have "map Tags_row (filter (\<lambda>tag. tag \<notin> set table) (remdups tags))
          = filter (\<lambda>tag. tag \<notin> set table) (remdups tags)"
    using assms(3) by (intro map_fits) (simp add: Tags_row_def)
  then show "tags_node (h5 (snd (add_tags tags s)))
           = Some (table @ filter (\<lambda>tag. tag \<notin> set table) (remdups tags))"
    using assms by (simp add: add_tags_run)
  show "fst (add_tags tags s) = Inr ()" "on_disk (snd (add_tags tags s))"
    using assms by (simp_all add: add_tags_run)
qed

lemma add_tags_calls_distinct:
  assumes "on_disk s" "tags_node (h5 s) = Some table" "distinct table"
    "\<forall>tags \<in> set calls. \<forall>t \<in> set tags. StringCol 36 t = t"
  shows "fst (add_tags_calls calls s) = Inr () \<and>
         (\<exists>table'. tags_node (h5 (snd (add_tags_calls calls s))) = Some table' \<and>
            distinct table' \<and> set table' = set table \<union> \<Union> (set ` set calls))"
  using assms
proof (induction calls arbitrary: s table)
  case Nil
  then show ?case by simp
next
  case (Cons tags calls)
  let ?s' = "snd (add_tags tags s)"
  let ?t' = "table @ filter (\<lambda>tag. tag \<notin> set table) (remdups tags)"
  from Cons.prems have fit: "\<forall>t \<in> set tags. StringCol 36 t = t" by simp
  note r = add_tags_fitting [OF Cons.prems(1,2) fit]
  have d: "distinct ?t'" using Cons.prems(3) by auto
  have rest: "\<forall>tags \<in> set calls. \<forall>t \<in> set tags. StringCol 36 t = t"
    using Cons.prems(4) by simp
  from Cons.IH [OF r(2) r(3) d rest]
  have "fst (add_tags_calls calls ?s') = Inr () \<and>
         (\<exists>table'. tags_node (h5 (snd (add_tags_calls calls ?s'))) = Some table' \<and>
            distinct table' \<and> set table' = set ?t' \<union> \<Union> (set ` set calls))" .
  moreover have "add_tags_calls (tags # calls) s = add_tags_calls calls ?s'"
    using r(1) by (cases "add_tags tags s") auto
  moreover have "set ?t' = set table \<union> set tags" by auto
  ultimately show ?case by auto
qed

lemma add_tags_present_noop:
  assumes "on_disk s" "tags_node (h5 s) = Some table" "set tags \<subseteq> set table"
  shows "add_tags tags s = (Inr (), closed ((after_open Append Exclusive s)))"
proof -
  have "filter (\<lambda>tag. tag \<notin> set table) (remdups tags) = []"
    using assms(3) by (auto simp: filter_empty_conv)
  then show ?thesis using assms by (simp add: add_tags_run after_open_def open_file_def)
qed

lemma add_tags_twice:
  assumes "on_disk s" "tags_node (h5 s) = Some table" "\<forall>t \<in> set tags. StringCol 36 t = t"
  shows "add_tags tags (snd (add_tags tags s)) = (Inr (), snd (add_tags tags s))"
proof -
  let ?s' = "snd (add_tags tags s)"
  note r = add_tags_fitting [OF assms]
  have sub: "set tags \<subseteq> set (table @ filter (\<lambda>tag. tag \<notin> set table) (remdups tags))" by auto
  have "add_tags tags ?s' = (Inr (), closed (after_open Append Exclusive ?s'))"
    by (rule add_tags_present_noop [OF r(2) r(3) sub])
  moreover have "closed (after_open Append Exclusive ?s') = ?s'"
    using assms by (simp add: add_tags_run closed_def after_open_def open_file_def)
  ultimately show ?thesis by simp
qed

lemma update_inner_miss:
  "fst row \<notin> set keys \<Longrightarrow> update_inner keys n row categories = (None, row, categories, [])"
  by (induction keys) auto

lemma update_inner_hit:
  "distinct keys \<Longrightarrow> fst row \<in> set keys \<Longrightarrow> map_of categories (fst row) = Some v \<Longrightarrow>
   update_inner keys n row categories =
     (None, (fst row, StringCol 36 v), dict_pop (fst row) categories,
      [Update_row ''categories'' n])"
proof (induction keys)
  case Nil
  then show ?case by simp
next
  case (Cons key keys)
  show ?case
  proof (cases "fst row = key")
    case True
    with Cons.prems have "key \<notin> set keys" by simp
    then have "update_inner keys n (key, StringCol 36 v) (dict_pop key categories)
      = (None, (key, StringCol 36 v), dict_pop key categories, [])"
      by (intro update_inner_miss) simp
    with True Cons.prems show ?thesis
      by (simp add: dict_getitem_def str_def)
  next
    case False
    with Cons show ?thesis by simp
  qed
qed

lemma map_of_dict_pop: "k' \<noteq> k \<Longrightarrow> map_of (dict_pop k d) k' = map_of d k'"
  by (induction d) (auto simp: dict_pop_def)

lemma distinct_dict_pop: "distinct (map fst d) \<Longrightarrow> distinct (map fst (dict_pop k d))"
  by (simp add: dict_pop_def distinct_map_filter)

lemma match_from_cong:
  "\<forall>x \<in> set xs. P x = Q x \<Longrightarrow> match_from P n xs = match_from Q n xs"
  by (induction xs arbitrary: n) auto

lemma map_cong_set: "\<forall>x \<in> set xs. f x = g x \<Longrightarrow> map f xs = map g xs"
  by (induction xs) auto

lemma key_not_in: "k \<notin> fst ` set table \<Longrightarrow> kv \<in> set table \<Longrightarrow> fst kv \<noteq> k"
  by (metis imageI)

lemma update_loop_run:
  assumes "distinct (map fst categories)" "distinct (map fst table)"
  shows "update_loop table n categories =
     (None, map (upsert_row categories) table, pending categories table,
      map (Update_row ''categories'')
        (match_from (\<lambda>row. fst row \<in> fst ` set categories) n table))"
  using assms
proof (induction table arbitrary: n categories)
  case Nil
  show ?case by (simp add: pending_def)
next
  case (Cons row table)
  from Cons.prems have dt: "distinct (map fst table)" and nk: "fst row \<notin> fst ` set table"
    by auto
  show ?case
  proof (cases "fst row \<in> fst ` set categories")
    case False
    then have miss: "update_inner (dict_keys categories) n row categories
        = (None, row, categories, [])"
      by (intro update_inner_miss) (simp add: dict_keys_def)
    from False have none: "map_of categories (fst row) = None"
      by (simp add: map_of_eq_None_iff)
    have ne: "\<forall>kv \<in> set categories. fst kv \<noteq> fst row"
    proof
      fix kv assume "kv \<in> set categories"
      then have "fst kv \<in> fst ` set categories" by (rule imageI)
      with False show "fst kv \<noteq> fst row" by metis
    qed
    have "pending categories (row # table) = pending categories table"
      unfolding pending_def using ne by (intro filter_cong refl) simp
    with Cons.IH [OF Cons.prems(1) dt, of "Suc n"] miss none False show ?thesis
      by (simp add: upsert_row_def)
  next
    case True
    then obtain v where v: "map_of categories (fst row) = Some v"
      by (metis map_of_eq_None_iff not_Some_eq)
    from True Cons.prems(1) have hit: "update_inner (dict_keys categories) n row categories
        = (None, (fst row, StringCol 36 v), dict_pop (fst row) categories,
           [Update_row ''categories'' n])"
      by (intro update_inner_hit v) (simp_all add: dict_keys_def)
    let ?c = "dict_pop (fst row) categories"
    have dc: "distinct (map fst ?c)" by (rule distinct_dict_pop [OF Cons.prems(1)])
    have rows: "map (upsert_row ?c) table = map (upsert_row categories) table"
    proof (intro map_cong_set ballI)
      fix kv assume "kv \<in> set table"
      from key_not_in [OF nk this] show "upsert_row ?c kv = upsert_row categories kv"
        by (simp add: upsert_row_def map_of_dict_pop)
    qed
    have pend: "pending ?c table = pending categories (row # table)"
      by (auto simp: pending_def dict_pop_def intro: filter_cong)
    have ev: "match_from (\<lambda>r. fst r \<in> fst ` set ?c) (Suc n) table
        = match_from (\<lambda>r. fst r \<in> fst ` set categories) (Suc n) table"
    proof (intro match_from_cong ballI)
      fix kv assume "kv \<in> set table"
      from key_not_in [OF nk this]
      show "(fst kv \<in> fst ` set ?c) = (fst kv \<in> fst ` set categories)"
        by (auto simp: dict_pop_def)
    qed
    from Cons.IH [OF dc dt, of "Suc n"] hit v True rows pend ev show ?thesis
      by (simp add: upsert_row_def)
  qed
qed

lemma append_loop_sub:
  "distinct (map fst categories) \<Longrightarrow> set sub \<subseteq> set categories \<Longrightarrow>
   append_loop (map fst sub) categories
     = (None, map (\<lambda>kv. Categories_row (fst kv) (snd kv)) sub)"
proof (induction sub)
  case Nil
  show ?case by simp
next
  case (Cons kv sub)
  then have m: "map_of categories (fst kv) = Some (snd kv)"
    by (intro map_of_is_SomeI) auto
  from Cons show ?case
    by (simp add: dict_getitem_def str_def m del: map_of_eq_Some_iff)
qed

lemma append_loop_all:
  "distinct (map fst categories) \<Longrightarrow>
   append_loop (dict_keys categories) categories
     = (None, map (\<lambda>kv. Categories_row (fst kv) (snd kv)) categories)"
  by (simp add: dict_keys_def append_loop_sub)

lemma distinct_pending: "distinct (map fst d) \<Longrightarrow> distinct (map fst (pending d table))"
  by (simp add: pending_def distinct_map_filter)

lemma add_categories_body_run:
  assumes "categories_node (h5 s) = Some table"
    "distinct (map fst categories)" "distinct (map fst table)"
  shows "add_categories_body categories s =
     (Inr (), s\<lparr>h5 := (h5 s)\<lparr>categories_node :=
                   Some (map (upsert_row categories) table
                         @ map (\<lambda>kv. Categories_row (fst kv) (snd kv)) (pending categories table))\<rparr>,
               events := events s
                 @ map (Update_row ''categories'')
                     (matching_rows (\<lambda>row. fst row \<in> fst ` set categories) table)
                 @ map (\<lambda>row. Append_row ''categories'') (pending categories table)\<rparr>)"
  using assms
  by (simp add: add_categories_body_def bind_action_def get_node_categories_def
      update_loop_run append_loop_all distinct_pending match_from_rows comp_def)

lemmas run_defs =
  created_def ContainerFile_init_def check_existence_def no_file_def bare_file_def create_def
  bind_action_def open_file_def File_exlock_def File_shlock_def lockf_EX_def
  return_action_def handle_close_def create_body_def create_meta_def
  create_coordinator_def create_tags_def create_categories_def append_tag_def
  append_category_def no_kwargs_def dict_keys_def dict_getitem_def str_def Meta_row_def
  Coordinator_row_def Tags_row_def Categories_row_def empty_h5_def

lemma created_empty:
  "created [] [] =
    \<lparr>on_disk = True,
     h5 = \<lparr>meta_node = Some [\<lparr>uuid = ''0f8fad5b-d9cb-469f-a165-70867728950e'', name = ''Sim'',
                                container = ''Sim'', location = ''/data/sims''\<rparr>],
           coordinator_node = Some [''None''],
           tags_node = Some [],
           categories_node = Some [],
           universes_group = False\<rparr>,
     handle = Closed_handle,
     events = [Create_table ''meta'', Append_row ''meta'', Create_table ''coordinator'',
               Append_row ''coordinator'', Create_table ''tags'', Create_table ''categories'']\<rparr>"
  by (simp add: run_defs StringCol_fits)

lemma created_abcd:
  "created [''a'', ''b'', ''c'', ''d''] [(''k1'', ''v1''), (''k2'', ''v2'')] =
    \<lparr>on_disk = True,
     h5 = \<lparr>meta_node = Some [\<lparr>uuid = ''0f8fad5b-d9cb-469f-a165-70867728950e'', name = ''Sim'',
                                container = ''Sim'', location = ''/data/sims''\<rparr>],
           coordinator_node = Some [''None''],
           tags_node = Some [''a'', ''b'', ''c'', ''d''],
           categories_node = Some [(''k1'', ''v1''), (''k2'', ''v2'')],
           universes_group = False\<rparr>,
     handle = Closed_handle,
     events = [Create_table ''meta'', Append_row ''meta'', Create_table ''coordinator'',
               Append_row ''coordinator'', Create_table ''tags'', Append_row ''tags'',
               Append_row ''tags'', Append_row ''tags'', Append_row ''tags'',
               Create_table ''categories'', Append_row ''categories'',
               Append_row ''categories'']\<rparr>"
  by (simp add: run_defs StringCol_fits)

lemma del_tags_run:
  assumes "on_disk s" "tags_node (h5 s) = Some table"
  shows "del_tags tags False s =
     (if \<forall>row \<in> set table. row \<in> set tags
      then (Inr (), closed (recreate_tags (after_open Append Exclusive s)))
      else (Inr (), closed ((after_open Append Exclusive s)
             \<lparr>h5 := (h5 s)\<lparr>tags_node := Some (filter (\<lambda>row. row \<notin> set tags) table)\<rparr>,
               events := events s @ map (Remove_row ''tags'')
                       (shifted (matching_rows (\<lambda>row. row \<in> set tags) table))\<rparr>)))"
  using assms by (simp add: del_tags_def write_inner_run del_tags_body_run)

lemma del_tags_purge_run:
  assumes "on_disk s" "tags_node (h5 s) = Some table"
  shows "del_tags tags True s = (Inr (), closed (recreate_tags (after_open Append Exclusive s)))"
  using assms by (simp add: del_tags_def write_inner_run del_tags_body_purge)

lemma del_categories_run:
  assumes "on_disk s" "categories_node (h5 s) = Some table"
  shows "del_categories keys False s =
     (if \<forall>row \<in> set table. fst row \<in> set keys
      then (Inr (), closed (recreate_categories (after_open Append Exclusive s)))
      else (Inr (), closed ((after_open Append Exclusive s)
             \<lparr>h5 := (h5 s)\<lparr>categories_node :=
                        Some (filter (\<lambda>row. fst row \<notin> set keys) table)\<rparr>,
               events := events s @ map (Remove_row ''categories'')
                       (shifted (matching_rows (\<lambda>row. fst row \<in> set keys) table))\<rparr>)))"
  using assms by (simp add: del_categories_def write_inner_run del_categories_body_run)

lemma del_categories_purge_run:
  assumes "on_disk s" "categories_node (h5 s) = Some table"
  shows "del_categories keys True s
           = (Inr (), closed (recreate_categories (after_open Append Exclusive s)))"
  using assms by (simp add: del_categories_def write_inner_run del_categories_body_purge)

lemma recreate_on_disk [simp]:
  "on_disk (recreate_tags s) = on_disk s"
  "on_disk (recreate_categories s) = on_disk s"
  "categories_node (h5 (recreate_tags s)) = categories_node (h5 s)"
  "tags_node (h5 (recreate_categories s)) = tags_node (h5 s)"
  by (simp_all add: recreate_tags_def recreate_categories_def)

lemma matching_rows_Cons:
  "matching_rows P (x # xs) = (if P x then [0] else []) @ map Suc (matching_rows P xs)"
  by (simp flip: match_from_rows add: match_from_shift)

lemma matching_rows_Nil [simp]: "matching_rows P [] = []"
  by (simp add: matching_rows_def)

lemma fold_append_tag_any:
  "fold append_tag new s =
     s\<lparr>h5 := (h5 s)\<lparr>tags_node :=
               map_option (\<lambda>table. table @ map Tags_row new) (tags_node (h5 s))\<rparr>,
       events := events s @ map (\<lambda>tag. Append_row ''tags'') new\<rparr>"
proof (induction new arbitrary: s)
  case Nil
  show ?case by (simp add: option.map_ident)
next
  case (Cons tag new)
  show ?case
    unfolding fold_simps Cons.IH
    by (simp add: append_tag_def option.map_comp comp_def)
qed

lemma fold_append_category:
  "fold append_category rows s =
     s\<lparr>h5 := (h5 s)\<lparr>categories_node :=
               map_option (\<lambda>table. table @ rows) (categories_node (h5 s))\<rparr>,
       events := events s @ map (\<lambda>row. Append_row ''categories'') rows\<rparr>"
proof (induction rows arbitrary: s)
  case Nil
  show ?case by (simp add: option.map_ident)
next
  case (Cons row rows)
  show ?case
    unfolding fold_simps Cons.IH
    by (simp add: append_category_def option.map_comp comp_def)
qed

lemma append_loop_keys:
  "set keys \<subseteq> fst ` set d \<Longrightarrow> fst (append_loop keys d) = None"
proof (induction keys)
  case Nil
  show ?case by simp
next
  case (Cons key keys)
  then have "key \<in> fst ` set d" by simp
  then obtain v where "map_of d key = Some v"
    by (metis map_of_eq_None_iff not_Some_eq)
  with Cons show ?case
    by (cases "append_loop keys d") (simp add: dict_getitem_def)
qed

lemma append_loop_created: "append_loop (dict_keys d) d = (None, created_rows d)"
  using append_loop_keys [of "dict_keys d" d]
  by (cases "append_loop (dict_keys d) d") (simp add: created_rows_def dict_keys_def)

lemma created_rows_distinct:
  "distinct (map fst d) \<Longrightarrow> created_rows d = map (\<lambda>kv. Categories_row (fst kv) (snd kv)) d"
  by (simp add: created_rows_def append_loop_all)

lemma create_run:
  "create classname kw u d s =
     (Inr (),
      \<lparr>on_disk = True,
       h5 = \<lparr>meta_node = Some [Meta_row u (case kw_name kw of None \<Rightarrow> classname | Some n \<Rightarrow> n)
                                 classname d],
             coordinator_node =
               Some [Coordinator_row (case kw_coordinator kw of None \<Rightarrow> ''None'' | Some a \<Rightarrow> a)],
             tags_node = Some (map Tags_row (kw_tags kw)),
             categories_node = Some (created_rows (kw_categories kw)),
             universes_group = False\<rparr>,
       handle = Closed_handle,
       events = events s
         @ [Create_table ''meta'', Append_row ''meta'', Create_table ''coordinator'',
            Append_row ''coordinator'', Create_table ''tags'']
         @ map (\<lambda>tag. Append_row ''tags'') (kw_tags kw)
         @ [Create_table ''categories'']
         @ map (\<lambda>row. Append_row ''categories'') (created_rows (kw_categories kw))\<rparr>)"
proof -
  have f: "fold (\<lambda>tag. append_tag (str tag)) (kw_tags kw) = fold append_tag (kw_tags kw)"
    by (rule arg_cong [where f = "\<lambda>g. fold g (kw_tags kw)"]) (simp add: fun_eq_iff str_def)
  show ?thesis
    unfolding create_def create_body_def Let_def f
    by (simp add: bind_action_def open_file_def File_exlock_def File_shlock_def lockf_EX_def
        return_action_def handle_close_def append_loop_created
        fold_append_category fold_append_tag_any
        create_categories_def create_tags_def create_coordinator_def create_meta_def empty_h5_def)
qed

lemma created_run:
  "created tags categories =
      \<lparr>on_disk = True,
       h5 = \<lparr>meta_node = Some [Meta_row ''0f8fad5b-d9cb-469f-a165-70867728950e'' ''Sim'' ''Sim''
                                 ''/data/sims''],
             coordinator_node = Some [Coordinator_row ''None''],
             tags_node = Some (map Tags_row tags),
             categories_node = Some (created_rows categories),
             universes_group = False\<rparr>,
       handle = Closed_handle,
       events =
           [Create_table ''meta'', Append_row ''meta'', Create_table ''coordinator'',
            Append_row ''coordinator'', Create_table ''tags'']
         @ map (\<lambda>tag. Append_row ''tags'') tags
         @ [Create_table ''categories'']
         @ map (\<lambda>row. Append_row ''categories'') (created_rows categories)\<rparr>"
  by (simp add: created_def ContainerFile_init_def check_existence_def no_file_def create_run
      no_kwargs_def)

lemma dict_setitem_new: "k \<notin> fst ` set d \<Longrightarrow> dict_setitem k v d = d @ [(k, v)]"
  by (induction d) auto

lemma fold_dict_setitem:
  "distinct (map fst (acc @ rows)) \<Longrightarrow>
   fold (\<lambda>x d. dict_setitem (fst x) (snd x) d) rows acc = acc @ rows"
proof (induction rows arbitrary: acc)
  case Nil
  show ?case by simp
next
  case (Cons row rows)
  from Cons.prems have new: "fst row \<notin> fst ` set acc" by auto
  from Cons.prems have "distinct (map fst ((acc @ [row]) @ rows))" by simp
  from Cons.IH [OF this] new show ?case
    by (simp add: dict_setitem_new)
qed

lemma get_tags_run:
  "on_disk s \<Longrightarrow> tags_node (h5 s) = Some table \<Longrightarrow>
   get_tags s = (Inr table, closed (after_open Read Shared s))"
  by (simp add: get_tags_def read_inner_run get_tags_body_def bind_action_def get_node_tags_def
      return_action_def)

lemma get_categories_run:
  "on_disk s \<Longrightarrow> categories_node (h5 s) = Some table \<Longrightarrow>
   get_categories s =
     (Inr (fold (\<lambda>x d. dict_setitem (fst x) (snd x) d) table []),
      closed (after_open Read Shared s))"
  by (simp add: get_categories_def read_inner_run get_categories_body_def bind_action_def
      get_node_categories_def return_action_def)

lemma reopen_closed:
  "on_disk s \<Longrightarrow> handle s = Closed_handle \<Longrightarrow> closed (after_open Read Shared s) = s"
  by (simp add: closed_def after_open_def open_file_def)

lemma rows_fit:
  "\<forall>kv \<in> set d. StringCol 36 (fst kv) = fst kv \<and> StringCol 36 (snd kv) = snd kv \<Longrightarrow>
   map (\<lambda>kv. Categories_row (fst kv) (snd kv)) d = d"
  by (induction d) (auto simp: Categories_row_def)

lemma call_self_exlock: "call_self ''exlock'' s = (Inl (AttributeError ''exlock''), s)"
  by (simp add: call_self_def instance_attrs_def SimFile_attrs_def ContainerFile_attrs_def
      File_attrs_def)

lemma length_rstrip_nul: "length (rstrip_nul v) \<le> length v"
  by (simp add: rstrip_nul_def) (metis length_dropWhile_le length_rev)

lemma length_StringCol: "length (StringCol n v) \<le> n"
proof -
  have "length (StringCol n v) \<le> length (take n v)"
    unfolding StringCol_def by (rule length_rstrip_nul)
  then show ?thesis by simp
qed

lemma StringCol_long37: "StringCol 36 long37 = take 36 long37"
  by (simp add: StringCol_def long37_def rstrip_nul_last)

lemma take_long37: "take 36 long37 \<noteq> long37"
proof
  assume "take 36 long37 = long37"
  then have "length (take 36 long37) = length long37" by simp
  then show False by (simp add: long37_def)
qed

lemma long37_take: "long37 \<noteq> take 36 long37"
  using take_long37 by metis

lemma add_categories_run:
  assumes "on_disk s" "categories_node (h5 s) = Some table"
    "distinct (map fst categories)" "distinct (map fst table)"
  shows "add_categories categories s =
     (Inr (), closed ((after_open Append Exclusive s)
        \<lparr>h5 := (h5 s)\<lparr>categories_node :=
                   Some (map (upsert_row categories) table
                         @ map (\<lambda>kv. Categories_row (fst kv) (snd kv)) (pending categories table))\<rparr>,
          events := events s
                 @ map (Update_row ''categories'')
                     (matching_rows (\<lambda>row. fst row \<in> fst ` set categories) table)
                 @ map (\<lambda>row. Append_row ''categories'') (pending categories table)\<rparr>))"
  using assms by (simp add: add_categories_def write_inner_run add_categories_body_run)

lemma fst_upsert_row [simp]: "fst (upsert_row categories row) = fst row"
  by (simp add: upsert_row_def split: option.splits)

lemma upsert_keys_distinct:
  assumes "distinct (map fst table)" "distinct (map fst categories)"
    "\<forall>kv \<in> set categories. StringCol 36 (fst kv) = fst kv"
  shows "distinct (map fst (map (upsert_row categories) table
            @ map (\<lambda>kv. Categories_row (fst kv) (snd kv)) (pending categories table)))"
proof -
  have k: "map (\<lambda>kv. fst (Categories_row (fst kv) (snd kv))) (pending categories table)
      = map fst (pending categories table)"
  proof (intro map_cong_set ballI)
    fix kv assume "kv \<in> set (pending categories table)"
    then have "kv \<in> set categories" by (simp add: pending_def)
    with assms(3) show "fst (Categories_row (fst kv) (snd kv)) = fst kv"
      by (simp add: Categories_row_def)
  qed
  have ne: "\<forall>kv \<in> set (pending categories table). fst kv \<notin> fst ` set table"
    by (simp add: pending_def)
  have d: "fst ` set table \<inter> fst ` set (pending categories table) = {}"
  proof (rule Int_emptyI)
    fix k assume k1: "k \<in> fst ` set table" and k2: "k \<in> fst ` set (pending categories table)"
    from k2 obtain kv where "kv \<in> set (pending categories table)" and "k = fst kv"
      by (rule imageE)
    with ne have "k \<notin> fst ` set table" by simp
    with k1 show False by simp
  qed
  show ?thesis
    using assms(1) distinct_pending [OF assms(2), of table] d
    by (simp add: comp_def k)
qed

lemma fits_short [simp]:
  "StringCol 36 ''a'' = ''a''" "StringCol 36 ''b'' = ''b''" "StringCol 36 ''c'' = ''c''"
  by (simp_all add: StringCol_fits)

section \<open>The claims\<close>

text \<open>
  C1, as the code has it. The inner function of \<^verbatim>\<open>_read\<close> and of \<^verbatim>\<open>_write\<close>
  closes the handle only after the wrapped method has returned. When the method returns
  \<open>out\<close> (and has left a handle in \<^verbatim>\<open>self.handle\<close>), the handle is closed, which
  releases the lock, and \<open>out\<close> is returned. When the method raises, the same exception
  leaves the inner function, unchanged, and nothing more is done: the state is the one the
  method left, no \<^verbatim>\<open>close\<close> is called.
\<close>

theorem decorators_close_on_return:
  "(on_disk s \<and> func (after_open Read Shared s) = (Inr out, s') \<and> handle s' \<noteq> No_handle \<longrightarrow>
      read_inner func s = (Inr out, closed s'))
   \<and> (on_disk s \<and> func (after_open Read Shared s) = (Inl e, s') \<longrightarrow>
      read_inner func s = (Inl e, s'))
   \<and> (func (after_open Append Exclusive s) = (Inr out, s') \<and> handle s' \<noteq> No_handle \<longrightarrow>
      write_inner func s = (Inr out, closed s'))
   \<and> (func (after_open Append Exclusive s) = (Inl e, s') \<longrightarrow>
      write_inner func s = (Inl e, s'))"
  by (simp add: read_inner_run write_inner_run)

text \<open>
  The statement at \<^verbatim>\<open>get_tags\<close>'s body, on a created file (it returns) and on a file
  that holds no table (\<^verbatim>\<open>get_node\<close> raises), under both decorators.
\<close>

theorem decorators_close_on_return_witness:
  "on_disk (created [''a''] []) \<and>
   get_tags_body (after_open Read Shared (created [''a''] []))
     = (Inr [''a''], after_open Read Shared (created [''a''] [])) \<and>
   handle (after_open Read Shared (created [''a''] [])) \<noteq> No_handle \<and>
   read_inner get_tags_body (created [''a''] [])
     = (Inr [''a''], closed (after_open Read Shared (created [''a''] []))) \<and>
   on_disk bare_file \<and>
   get_tags_body (after_open Read Shared bare_file)
     = (Inl (NoSuchNodeError ''tags''), after_open Read Shared bare_file) \<and>
   read_inner get_tags_body bare_file
     = (Inl (NoSuchNodeError ''tags''), after_open Read Shared bare_file) \<and>
   get_tags_body (after_open Append Exclusive (created [''a''] []))
     = (Inr [''a''], after_open Append Exclusive (created [''a''] [])) \<and>
   handle (after_open Append Exclusive (created [''a''] [])) \<noteq> No_handle \<and>
   write_inner get_tags_body (created [''a''] [])
     = (Inr [''a''], closed (after_open Append Exclusive (created [''a''] []))) \<and>
   get_tags_body (after_open Append Exclusive bare_file)
     = (Inl (NoSuchNodeError ''tags''), after_open Append Exclusive bare_file) \<and>
   write_inner get_tags_body bare_file
     = (Inl (NoSuchNodeError ''tags''), after_open Append Exclusive bare_file)"
proof -
  have 1: "on_disk (created [''a''] [])" "tags_node (h5 (created [''a''] [])) = Some [''a'']"
    by (simp_all add: created_run Tags_row_def)
  have 2: "on_disk bare_file" "tags_node (h5 bare_file) = None"
    by (simp_all add: bare_file_def empty_h5_def)
  have b: "\<And>s table. tags_node (h5 s) = Some table \<Longrightarrow> get_tags_body s = (Inr table, s)"
    by (simp add: get_tags_body_def bind_action_def get_node_tags_def return_action_def)
  have n: "\<And>s. tags_node (h5 s) = None \<Longrightarrow> get_tags_body s = (Inl (NoSuchNodeError ''tags''), s)"
    by (simp add: get_tags_body_def bind_action_def get_node_tags_def return_action_def)
  have r1: "get_tags_body (after_open Read Shared (created [''a''] []))
     = (Inr [''a''], after_open Read Shared (created [''a''] []))"
    by (rule b) (simp add: 1)
  have w1: "get_tags_body (after_open Append Exclusive (created [''a''] []))
     = (Inr [''a''], after_open Append Exclusive (created [''a''] []))"
    by (rule b) (simp add: 1)
  have r2: "get_tags_body (after_open Read Shared bare_file)
     = (Inl (NoSuchNodeError ''tags''), after_open Read Shared bare_file)"
    by (rule n) (simp add: 2)
  have w2: "get_tags_body (after_open Append Exclusive bare_file)
     = (Inl (NoSuchNodeError ''tags''), after_open Append Exclusive bare_file)"
    by (rule n) (simp add: 2)
  show ?thesis
    using decorators_close_on_return [of "created [''a''] []" get_tags_body "[''a'']"
        "after_open Read Shared (created [''a''] [])"]
      decorators_close_on_return [of bare_file get_tags_body _
        "after_open Read Shared bare_file" "NoSuchNodeError ''tags''"]
      decorators_close_on_return [of "created [''a''] []" get_tags_body "[''a'']"
        "after_open Append Exclusive (created [''a''] [])"]
      decorators_close_on_return [of bare_file get_tags_body _
        "after_open Append Exclusive bare_file" "NoSuchNodeError ''tags''"]
    by (simp add: 1 2 r1 r2 w1 w2)
qed

text \<open>
  C1 as stated fails. On an existing file without a \<^verbatim>\<open>tags\<close> table,
  \<^verbatim>\<open>get_tags()\<close> raises \<^verbatim>\<open>NoSuchNodeError\<close> and leaves the handle open with its
  shared lock; where the file is missing, \<^verbatim>\<open>add_tags('x')\<close> creates an empty file,
  raises the same error and leaves the handle open with its exclusive lock.
\<close>

theorem decorators_leave_handle_open:
  "get_tags bare_file = (Inl (NoSuchNodeError ''tags''), bare_file\<lparr>handle := Open_handle Read Shared\<rparr>)
   \<and> add_tags [''x''] no_file
      = (Inl (NoSuchNodeError ''tags''), bare_file\<lparr>handle := Open_handle Append Exclusive\<rparr>)"
  by (simp add: get_tags_def add_tags_def read_inner_def write_inner_def bind_action_def
      open_file_def File_shlock_def File_exlock_def lockf_EX_def return_action_def
      get_tags_body_def add_tags_body_def get_node_tags_def bare_file_def no_file_def empty_h5_def)

text \<open>
  C2. A call of \<^verbatim>\<open>del_tags\<close> (resp. \<^verbatim>\<open>del_categories\<close>) without the \<^verbatim>\<open>all\<close> flag,
  on an existing file whose table has at least one row that matches none of the given
  strings, returns normally; the table then holds exactly the rows whose tag (resp. key)
  is none of the given strings, in their old order; and the rows were removed by
  \<^verbatim>\<open>remove_row\<close> calls on the numbers of the matching rows, in ascending order, each
  lowered by the number of rows removed before it. With the tags a, b, c, d in the
  table, deleting b and d leaves a and c, by \<^verbatim>\<open>remove_row(1)\<close> and \<^verbatim>\<open>remove_row(2)\<close>.
\<close>

theorem del_rows_removed:
  "(on_disk s \<and> tags_node (h5 s) = Some table \<and> (\<exists>row \<in> set table. row \<notin> set tags) \<longrightarrow>
      fst (del_tags tags False s) = Inr () \<and>
      tags_node (h5 (snd (del_tags tags False s)))
        = Some (filter (\<lambda>row. row \<notin> set tags) table) \<and>
      events (snd (del_tags tags False s))
        = events s @ map (Remove_row ''tags'')
            (shifted (matching_rows (\<lambda>row. row \<in> set tags) table)))
   \<and>
   (on_disk s \<and> categories_node (h5 s) = Some ctable \<and>
      (\<exists>row \<in> set ctable. fst row \<notin> set keys) \<longrightarrow>
      fst (del_categories keys False s) = Inr () \<and>
      categories_node (h5 (snd (del_categories keys False s)))
        = Some (filter (\<lambda>row. fst row \<notin> set keys) ctable) \<and>
      events (snd (del_categories keys False s))
        = events s @ map (Remove_row ''categories'')
            (shifted (matching_rows (\<lambda>row. fst row \<in> set keys) ctable)))
   \<and>
   (on_disk s \<and> tags_node (h5 s) = Some [''a'', ''b'', ''c'', ''d''] \<longrightarrow>
      tags_node (h5 (snd (del_tags [''b'', ''d''] False s))) = Some [''a'', ''c''] \<and>
      events (snd (del_tags [''b'', ''d''] False s))
        = events s @ [Remove_row ''tags'' 1, Remove_row ''tags'' 2])"
proof (intro conjI impI)
  assume a: "on_disk s \<and> tags_node (h5 s) = Some [''a'', ''b'', ''c'', ''d'']"
  then have r: "del_tags [''b'', ''d''] False s =
     (Inr (), closed ((after_open Append Exclusive s)
             \<lparr>h5 := (h5 s)\<lparr>tags_node := Some [''a'', ''c'']\<rparr>,
               events := events s @ [Remove_row ''tags'' 1, Remove_row ''tags'' 2]\<rparr>))"
    by (simp add: del_tags_run matching_rows_Cons shifted_def enumerate_eq_zip upt_rec)
  show "tags_node (h5 (snd (del_tags [''b'', ''d''] False s))) = Some [''a'', ''c'']"
    by (simp add: r)
  show "events (snd (del_tags [''b'', ''d''] False s))
        = events s @ [Remove_row ''tags'' 1, Remove_row ''tags'' 2]"
    by (simp add: r)
qed (auto simp: del_tags_run del_categories_run)

text \<open>The statement at a file created with four tags and two categories.\<close>

theorem del_rows_removed_witness:
  "on_disk (created [''a'', ''b'', ''c'', ''d''] [(''k1'', ''v1''), (''k2'', ''v2'')]) \<and>
   (\<exists>row \<in> set [''a'', ''b'', ''c'', ''d'']. row \<notin> set [''a'', ''c'', ''x'']) \<and>
   (\<exists>row \<in> set [(''k1'', ''v1''), (''k2'', ''v2'')]. fst row \<notin> set [''k1'']) \<and>
   tags_node (h5 (snd (del_tags [''a'', ''c'', ''x''] False
       (created [''a'', ''b'', ''c'', ''d''] [(''k1'', ''v1''), (''k2'', ''v2'')]))))
     = Some [''b'', ''d''] \<and>
   categories_node (h5 (snd (del_categories [''k1''] False
       (created [''a'', ''b'', ''c'', ''d''] [(''k1'', ''v1''), (''k2'', ''v2'')]))))
     = Some [(''k2'', ''v2'')] \<and>
   tags_node (h5 (snd (del_tags [''b'', ''d''] False
       (created [''a'', ''b'', ''c'', ''d''] [(''k1'', ''v1''), (''k2'', ''v2'')]))))
     = Some [''a'', ''c'']"
  using del_rows_removed [of "created [''a'', ''b'', ''c'', ''d''] [(''k1'', ''v1''), (''k2'', ''v2'')]"
      "[''a'', ''b'', ''c'', ''d'']" "[''a'', ''c'', ''x'']" "[(''k1'', ''v1''), (''k2'', ''v2'')]"
      "[''k1'']"]
  by (simp add: created_abcd)


text \<open>
  C3, as the code has it. \<^verbatim>\<open>create\<close> returns normally and writes exactly one meta
  row, whose \<^verbatim>\<open>uuid\<close> field holds the generated identifier as the 36-byte column
  stores it, and exactly one coordinator row. When the tags passed are pairwise
  different, the keys of the dictionary passed are pairwise different (it is a
  dictionary), and every tag, key and value is stored unchanged by its 36-byte column,
  the tags table holds one row per tag and the categories table one row per key, and
  \<^verbatim>\<open>get_tags\<close> and \<^verbatim>\<open>get_categories\<close> right after return exactly the tags and
  categories passed.
\<close>

theorem create_round_trip:
  "fst (create classname kw u d s) = Inr () \<and>
   meta_node (h5 (snd (create classname kw u d s)))
     = Some [Meta_row u (case kw_name kw of None \<Rightarrow> classname | Some n \<Rightarrow> n) classname d] \<and>
   uuid (Meta_row u (case kw_name kw of None \<Rightarrow> classname | Some n \<Rightarrow> n) classname d)
     = StringCol 36 u \<and>
   (\<exists>row. coordinator_node (h5 (snd (create classname kw u d s))) = Some [row]) \<and>
   (distinct (kw_tags kw) \<and> (\<forall>t \<in> set (kw_tags kw). StringCol 36 t = t) \<and>
    distinct (map fst (kw_categories kw)) \<and>
    (\<forall>kv \<in> set (kw_categories kw).
        StringCol 36 (fst kv) = fst kv \<and> StringCol 36 (snd kv) = snd kv) \<longrightarrow>
      tags_node (h5 (snd (create classname kw u d s))) = Some (kw_tags kw) \<and>
      categories_node (h5 (snd (create classname kw u d s))) = Some (kw_categories kw) \<and>
      get_tags (snd (create classname kw u d s))
        = (Inr (kw_tags kw), snd (create classname kw u d s)) \<and>
      get_categories (snd (create classname kw u d s))
        = (Inr (kw_categories kw), snd (create classname kw u d s)))"
proof (intro conjI impI)
  let ?s' = "snd (create classname kw u d s)"
  assume a: "distinct (kw_tags kw) \<and> (\<forall>t \<in> set (kw_tags kw). StringCol 36 t = t) \<and>
    distinct (map fst (kw_categories kw)) \<and>
    (\<forall>kv \<in> set (kw_categories kw).
        StringCol 36 (fst kv) = fst kv \<and> StringCol 36 (snd kv) = snd kv)"
  then have t: "map Tags_row (kw_tags kw) = kw_tags kw"
    by (intro map_fits) (simp add: Tags_row_def)
  from a have c: "created_rows (kw_categories kw) = kw_categories kw"
    by (simp add: created_rows_distinct rows_fit)
  show tn: "tags_node (h5 ?s') = Some (kw_tags kw)"
    by (simp add: create_run t)
  show cn: "categories_node (h5 ?s') = Some (kw_categories kw)"
    by (simp add: create_run c)
  have od: "on_disk ?s'" and hc: "handle ?s' = Closed_handle"
    by (simp_all add: create_run)
  show "get_tags ?s' = (Inr (kw_tags kw), ?s')"
    by (simp add: get_tags_run [OF od tn] reopen_closed [OF od hc])
  from a have "fold (\<lambda>x d. dict_setitem (fst x) (snd x) d) (kw_categories kw) []
      = kw_categories kw"
    using fold_dict_setitem [of "[]" "kw_categories kw"] by simp
  then show "get_categories ?s' = (Inr (kw_categories kw), ?s')"
    by (simp add: get_categories_run [OF od cn] reopen_closed [OF od hc])
qed (simp_all add: create_run Meta_row_def)

text \<open>The statement at a file created with two tags and one category.\<close>

theorem create_round_trip_witness:
  "distinct [''a'', ''b''] \<and> StringCol 36 ''a'' = ''a'' \<and> StringCol 36 ''b'' = ''b'' \<and>
   distinct (map fst [(''k'', ''v'')]) \<and>
   StringCol 36 ''k'' = ''k'' \<and> StringCol 36 ''v'' = ''v'' \<and>
   fst (create ''Sim'' (no_kwargs\<lparr>kw_tags := [''a'', ''b''], kw_categories := [(''k'', ''v'')]\<rparr>)
          ''0f8fad5b-d9cb-469f-a165-70867728950e'' ''/data/sims'' no_file) = Inr () \<and>
   fst (get_tags (snd (create ''Sim''
          (no_kwargs\<lparr>kw_tags := [''a'', ''b''], kw_categories := [(''k'', ''v'')]\<rparr>)
          ''0f8fad5b-d9cb-469f-a165-70867728950e'' ''/data/sims'' no_file))) = Inr [''a'', ''b''] \<and>
   fst (get_categories (snd (create ''Sim''
          (no_kwargs\<lparr>kw_tags := [''a'', ''b''], kw_categories := [(''k'', ''v'')]\<rparr>)
          ''0f8fad5b-d9cb-469f-a165-70867728950e'' ''/data/sims'' no_file))) = Inr [(''k'', ''v'')]"
  using create_round_trip [of "''Sim''"
      "no_kwargs\<lparr>kw_tags := [''a'', ''b''], kw_categories := [(''k'', ''v'')]\<rparr>"
      "''0f8fad5b-d9cb-469f-a165-70867728950e''" "''/data/sims''" no_file]
  by (simp add: no_kwargs_def StringCol_fits)

text \<open>
  C3 as stated fails. \<^verbatim>\<open>create\<close> does not remove duplicates: with the tags a, a it
  writes two rows. And a tag of 37 characters is read back by \<^verbatim>\<open>get_tags\<close> as its
  first 36 characters, not as the tag passed at creation.
\<close>

theorem create_keeps_duplicates_and_cuts:
  "tags_node (h5 (created [''a'', ''a''] [])) = Some [''a'', ''a''] \<and>
   fst (get_tags (created [long37] [])) = Inr [take 36 long37] \<and>
   take 36 long37 \<noteq> long37"
proof -
  have 1: "on_disk (created [long37] [])"
    "tags_node (h5 (created [long37] [])) = Some [take 36 long37]"
    by (simp_all add: created_run Tags_row_def StringCol_long37)
  have 2: "tags_node (h5 (created [''a'', ''a''] [])) = Some [''a'', ''a'']"
    by (simp add: created_run Tags_row_def)
  show ?thesis
    by (simp add: get_tags_run [OF 1] 2) (simp add: long37_def)
qed

text \<open>
  C4, as the code has it. Starting from a tags table without duplicates, after any
  sequence of \<^verbatim>\<open>add_tags\<close> calls whose tags are all stored unchanged by the 36-byte
  column, every call has returned normally and the table has no duplicates; it holds
  the old tags and the tags given. A second \<^verbatim>\<open>add_tags\<close> call with the same such tags
  leaves the state as the first call left it. And a call whose tags are all in the table
  already appends no row.
\<close>

theorem add_tags_no_duplicates:
  "(on_disk s \<and> tags_node (h5 s) = Some table \<and> distinct table \<and>
    (\<forall>tags \<in> set calls. \<forall>t \<in> set tags. StringCol 36 t = t) \<longrightarrow>
      fst (add_tags_calls calls s) = Inr () \<and>
      (\<exists>table'. tags_node (h5 (snd (add_tags_calls calls s))) = Some table' \<and>
         distinct table' \<and> set table' = set table \<union> \<Union> (set ` set calls)))
   \<and>
   (on_disk s \<and> tags_node (h5 s) = Some table \<and> (\<forall>t \<in> set tags. StringCol 36 t = t) \<longrightarrow>
      add_tags tags (snd (add_tags tags s)) = (Inr (), snd (add_tags tags s)))
   \<and>
   (on_disk s \<and> tags_node (h5 s) = Some table \<and> set tags \<subseteq> set table \<longrightarrow>
      fst (add_tags tags s) = Inr () \<and>
      tags_node (h5 (snd (add_tags tags s))) = Some table \<and>
      events (snd (add_tags tags s)) = events s)"
proof (intro conjI impI)
  assume a: "on_disk s \<and> tags_node (h5 s) = Some table \<and> set tags \<subseteq> set table"
  then have x: "on_disk s" "tags_node (h5 s) = Some table" "set tags \<subseteq> set table"
    by simp_all
  have r: "add_tags tags s = (Inr (), closed (after_open Append Exclusive s))"
    by (rule add_tags_present_noop [OF x])
  from a show "fst (add_tags tags s) = Inr ()"
    "tags_node (h5 (snd (add_tags tags s))) = Some table"
    "events (snd (add_tags tags s)) = events s"
    by (simp_all add: r)
next
  assume a: "on_disk s \<and> tags_node (h5 s) = Some table \<and> distinct table \<and>
    (\<forall>tags \<in> set calls. \<forall>t \<in> set tags. StringCol 36 t = t)"
  then have x: "on_disk s" "tags_node (h5 s) = Some table" "distinct table"
    "\<forall>tags \<in> set calls. \<forall>t \<in> set tags. StringCol 36 t = t"
    by simp_all
  have r: "fst (add_tags_calls calls s) = Inr () \<and>
         (\<exists>table'. tags_node (h5 (snd (add_tags_calls calls s))) = Some table' \<and>
            distinct table' \<and> set table' = set table \<union> \<Union> (set ` set calls))"
    by (rule add_tags_calls_distinct [OF x])
  from r show "fst (add_tags_calls calls s) = Inr ()" by simp
  from r show "\<exists>table'. tags_node (h5 (snd (add_tags_calls calls s))) = Some table' \<and>
            distinct table' \<and> set table' = set table \<union> \<Union> (set ` set calls)" by simp
next
  assume "on_disk s \<and> tags_node (h5 s) = Some table \<and> (\<forall>t \<in> set tags. StringCol 36 t = t)"
  then have x: "on_disk s" "tags_node (h5 s) = Some table" "\<forall>t \<in> set tags. StringCol 36 t = t"
    by simp_all
  show "add_tags tags (snd (add_tags tags s)) = (Inr (), snd (add_tags tags s))"
    by (rule add_tags_twice [OF x])
qed

text \<open>
  The statement at a file created with the tag a, for the calls
  \<^verbatim>\<open>add_tags('b', 'a', 'b')\<close> and \<^verbatim>\<open>add_tags('b', 'c')\<close>.
\<close>

theorem add_tags_no_duplicates_witness:
  "on_disk (created [''a''] []) \<and> tags_node (h5 (created [''a''] [])) = Some [''a''] \<and>
   distinct [''a''] \<and>
   StringCol 36 ''a'' = ''a'' \<and> StringCol 36 ''b'' = ''b'' \<and> StringCol 36 ''c'' = ''c'' \<and>
   fst (add_tags_calls [[''b'', ''a'', ''b''], [''b'', ''c'']] (created [''a''] [])) = Inr () \<and>
   (\<exists>table'. tags_node (h5 (snd (add_tags_calls [[''b'', ''a'', ''b''], [''b'', ''c'']]
                                    (created [''a''] [])))) = Some table' \<and>
      distinct table' \<and>
      set table' = set [''a''] \<union> \<Union> (set ` set [[''b'', ''a'', ''b''], [''b'', ''c'']])) \<and>
   add_tags [''b'', ''a'', ''b''] (snd (add_tags [''b'', ''a'', ''b''] (created [''a''] [])))
     = (Inr (), snd (add_tags [''b'', ''a'', ''b''] (created [''a''] []))) \<and>
   set [''a'', ''a''] \<subseteq> set [''a''] \<and>
   tags_node (h5 (snd (add_tags [''a'', ''a''] (created [''a''] [])))) = Some [''a'']"
proof -
  have 1: "on_disk (created [''a''] [])" "tags_node (h5 (created [''a''] [])) = Some [''a'']"
    by (simp_all add: created_run Tags_row_def)
  show ?thesis
    using add_tags_no_duplicates [of "created [''a''] []" "[''a'']"
        "[[''b'', ''a'', ''b''], [''b'', ''c'']]" "[''b'', ''a'', ''b'']"]
      add_tags_no_duplicates [of "created [''a''] []" "[''a'']" "[]" "[''a'', ''a'']"]
    by (simp add: 1)
qed

text \<open>
  C4 as stated fails. The same tag of 37 characters submitted in two \<^verbatim>\<open>add_tags\<close>
  calls on an empty tags table leaves two equal rows: the row stored is the first 36
  characters, which the second call does not find equal to the tag.
\<close>

theorem add_tags_long_tag_twice:
  "tags_node (h5 (snd (add_tags [long37] (snd (add_tags [long37] (created [] []))))))
     = Some [take 36 long37, take 36 long37]"
proof -
  let ?s1 = "snd (add_tags [long37] (created [] []))"
  have 0: "on_disk (created [] [])" "tags_node (h5 (created [] [])) = Some []"
    by (simp_all add: created_run)
  have 1: "on_disk ?s1" "tags_node (h5 ?s1) = Some [take 36 long37]"
    by (simp_all add: add_tags_run [OF 0] Tags_row_def StringCol_long37)
  show ?thesis
    using long37_take by (simp add: add_tags_run [OF 1] Tags_row_def StringCol_long37)
qed

text \<open>
  C5, as the code has it. On a categories table whose keys are pairwise different, for
  every dictionary, \<^verbatim>\<open>add_categories\<close> returns normally; each row whose key is a key
  of the dictionary has its value replaced in place by the new value as the 36-byte
  column stores it, the other rows are kept, and the entries whose key has no row are
  appended as new rows, in the dictionary's order. When every key of the dictionary is
  stored unchanged by its column, the keys of the table are again pairwise different.
  On an empty table, \<^verbatim>\<open>add_categories(k='v1')\<close> and then \<^verbatim>\<open>add_categories(k='v2')\<close>
  leave the one row (k, v2).
\<close>

theorem add_categories_upsert:
  "(on_disk s \<and> categories_node (h5 s) = Some table \<and> distinct (map fst table) \<and>
    distinct (map fst categories) \<longrightarrow>
      fst (add_categories categories s) = Inr () \<and>
      categories_node (h5 (snd (add_categories categories s)))
        = Some (map (upsert_row categories) table
                @ map (\<lambda>kv. Categories_row (fst kv) (snd kv)) (pending categories table)) \<and>
      ((\<forall>kv \<in> set categories. StringCol 36 (fst kv) = fst kv) \<longrightarrow>
         distinct (map fst (map (upsert_row categories) table
                @ map (\<lambda>kv. Categories_row (fst kv) (snd kv)) (pending categories table)))))
   \<and>
   (on_disk s \<and> categories_node (h5 s) = Some [] \<longrightarrow>
      categories_node (h5 (snd (add_categories [(''k'', ''v2'')]
                                 (snd (add_categories [(''k'', ''v1'')] s)))))
        = Some [(''k'', ''v2'')])"
proof (intro conjI impI)
  assume a: "on_disk s \<and> categories_node (h5 s) = Some []"
  let ?s1 = "snd (add_categories [(''k'', ''v1'')] s)"
  from a have 1: "on_disk ?s1" "categories_node (h5 ?s1) = Some [(''k'', ''v1'')]"
    by (simp_all add: add_categories_run pending_def Categories_row_def StringCol_fits)
  show "categories_node (h5 (snd (add_categories [(''k'', ''v2'')] ?s1))) = Some [(''k'', ''v2'')]"
    by (simp add: add_categories_run [OF 1] pending_def upsert_row_def StringCol_fits)
next
  assume h: "on_disk s \<and> categories_node (h5 s) = Some table \<and> distinct (map fst table) \<and>
    distinct (map fst categories)"
    and f: "\<forall>kv \<in> set categories. StringCol 36 (fst kv) = fst kv"
  from h f show "distinct (map fst (map (upsert_row categories) table
                @ map (\<lambda>kv. Categories_row (fst kv) (snd kv)) (pending categories table)))"
    by (intro upsert_keys_distinct) simp_all
qed (simp_all add: add_categories_run)

text \<open>
  The statement at a file created with the categories k1 and k2, upserting k2 and k3.
\<close>

theorem add_categories_upsert_witness:
  "on_disk (created [] [(''k1'', ''v1''), (''k2'', ''v2'')]) \<and>
   categories_node (h5 (created [] [(''k1'', ''v1''), (''k2'', ''v2'')]))
     = Some [(''k1'', ''v1''), (''k2'', ''v2'')] \<and>
   distinct (map fst [(''k1'', ''v1''), (''k2'', ''v2'')]) \<and>
   distinct (map fst [(''k2'', ''w''), (''k3'', ''v3'')]) \<and>
   StringCol 36 ''k2'' = ''k2'' \<and> StringCol 36 ''k3'' = ''k3'' \<and>
   fst (add_categories [(''k2'', ''w''), (''k3'', ''v3'')]
          (created [] [(''k1'', ''v1''), (''k2'', ''v2'')])) = Inr () \<and>
   categories_node (h5 (snd (add_categories [(''k2'', ''w''), (''k3'', ''v3'')]
          (created [] [(''k1'', ''v1''), (''k2'', ''v2'')]))))
     = Some [(''k1'', ''v1''), (''k2'', ''w''), (''k3'', ''v3'')] \<and>
   distinct (map fst [(''k1'', ''v1''), (''k2'', ''w''), (''k3'', ''v3'')])"
  using add_categories_upsert [of "created [] [(''k1'', ''v1''), (''k2'', ''v2'')]"
      "[(''k1'', ''v1''), (''k2'', ''v2'')]" "[(''k2'', ''w''), (''k3'', ''v3'')]"]
  by (simp add: created_run created_rows_distinct Categories_row_def StringCol_fits
      upsert_row_def pending_def)

text \<open>
  C5 as stated fails. A key of 37 characters added twice to an empty categories table
  leaves two rows with the same key, the first 36 characters: keys do not remain unique.
\<close>

theorem add_categories_long_key_twice:
  "categories_node (h5 (snd (add_categories [(long37, ''v'')]
       (snd (add_categories [(long37, ''v'')] (created [] []))))))
     = Some [(take 36 long37, ''v''), (take 36 long37, ''v'')]"
proof -
  let ?s1 = "snd (add_categories [(long37, ''v'')] (created [] []))"
  have 1: "on_disk ?s1" "categories_node (h5 ?s1) = Some [(take 36 long37, ''v'')]"
    by (simp_all add: add_categories_run created_empty pending_def Categories_row_def
        StringCol_fits StringCol_long37)
  have p: "pending [(long37, ''v'')] [(take 36 long37, ''v'')] = [(long37, ''v'')]"
    using long37_take by (simp add: pending_def)
  have u: "upsert_row [(long37, ''v'')] (take 36 long37, ''v'') = (take 36 long37, ''v'')"
    using take_long37 by (simp add: upsert_row_def)
  show ?thesis
    by (simp add: add_categories_run [OF 1] p u Categories_row_def StringCol_fits StringCol_long37)
qed

text \<open>
  C6. Whenever every row of the table matches one of the given strings (the number of
  matching rows equals the number of rows), with or without the \<^verbatim>\<open>all\<close> flag,
  \<^verbatim>\<open>del_tags\<close> (resp. \<^verbatim>\<open>del_categories\<close>) returns normally, the table has no rows,
  and the only calls made were \<^verbatim>\<open>table.remove()\<close> and \<^verbatim>\<open>create_table\<close>: no row
  was removed one by one. On an empty tags table, \<^verbatim>\<open>add_tags('a', 'b', 'c')\<close> and then
  \<^verbatim>\<open>del_tags('a', 'b', 'c')\<close> leave an empty table, and \<^verbatim>\<open>add_tags('d')\<close> after
  that returns normally and leaves the one tag d.
\<close>

theorem del_all_rows_recreates:
  "(on_disk s \<and> tags_node (h5 s) = Some table \<and> (\<forall>row \<in> set table. row \<in> set tags) \<longrightarrow>
      fst (del_tags tags purge s) = Inr () \<and>
      tags_node (h5 (snd (del_tags tags purge s))) = Some [] \<and>
      events (snd (del_tags tags purge s))
        = events s @ [Remove_table ''tags'', Create_table ''tags''])
   \<and>
   (on_disk s \<and> categories_node (h5 s) = Some ctable \<and>
      (\<forall>row \<in> set ctable. fst row \<in> set keys) \<longrightarrow>
      fst (del_categories keys purge s) = Inr () \<and>
      categories_node (h5 (snd (del_categories keys purge s))) = Some [] \<and>
      events (snd (del_categories keys purge s))
        = events s @ [Remove_table ''categories'', Create_table ''categories''])
   \<and>
   (on_disk s \<and> tags_node (h5 s) = Some [] \<longrightarrow>
      map_option set (tags_node (h5 (snd (add_tags [''a'', ''b'', ''c''] s))))
        = Some {''a'', ''b'', ''c''} \<and>
      tags_node (h5 (snd (del_tags [''a'', ''b'', ''c''] False
                            (snd (add_tags [''a'', ''b'', ''c''] s))))) = Some [] \<and>
      add_tags [''d''] (snd (del_tags [''a'', ''b'', ''c''] False
                              (snd (add_tags [''a'', ''b'', ''c''] s))))
        = (Inr (), snd (add_tags [''d''] (snd (del_tags [''a'', ''b'', ''c''] False
                              (snd (add_tags [''a'', ''b'', ''c''] s)))))) \<and>
      tags_node (h5 (snd (add_tags [''d''] (snd (del_tags [''a'', ''b'', ''c''] False
                              (snd (add_tags [''a'', ''b'', ''c''] s)))))))
        = Some [''d''])"
proof (intro conjI impI)
  assume a: "on_disk s \<and> tags_node (h5 s) = Some []"
  let ?s1 = "snd (add_tags [''a'', ''b'', ''c''] s)"
  let ?s2 = "snd (del_tags [''a'', ''b'', ''c''] False ?s1)"
  from a have 1: "on_disk ?s1" "tags_node (h5 ?s1) = Some [''a'', ''b'', ''c'']"
    by (simp_all add: add_tags_run Tags_row_def StringCol_fits)
  show "map_option set (tags_node (h5 ?s1)) = Some {''a'', ''b'', ''c''}" by (simp add: 1)
  have 2: "on_disk ?s2" "tags_node (h5 ?s2) = Some []"
    by (simp_all add: del_tags_run [OF 1])
  show "tags_node (h5 ?s2) = Some []" by (rule 2)
  show "add_tags [''d''] ?s2 = (Inr (), snd (add_tags [''d''] ?s2))"
    by (simp add: add_tags_run [OF 2])
  show "tags_node (h5 (snd (add_tags [''d''] ?s2))) = Some [''d'']"
    by (simp add: add_tags_run [OF 2] Tags_row_def StringCol_fits)
next
  assume "on_disk s \<and> tags_node (h5 s) = Some table \<and> (\<forall>row \<in> set table. row \<in> set tags)"
  then show "fst (del_tags tags purge s) = Inr ()"
    "tags_node (h5 (snd (del_tags tags purge s))) = Some []"
    "events (snd (del_tags tags purge s))
        = events s @ [Remove_table ''tags'', Create_table ''tags'']"
    by (cases purge; simp add: del_tags_run del_tags_purge_run)+
next
  assume "on_disk s \<and> categories_node (h5 s) = Some ctable \<and>
      (\<forall>row \<in> set ctable. fst row \<in> set keys)"
  then show "fst (del_categories keys purge s) = Inr ()"
    "categories_node (h5 (snd (del_categories keys purge s))) = Some []"
    "events (snd (del_categories keys purge s))
        = events s @ [Remove_table ''categories'', Create_table ''categories'']"
    by (cases purge; simp add: del_categories_run del_categories_purge_run)+
qed

text \<open>The statement at a file created with two tags and one category.\<close>

theorem del_all_rows_recreates_witness:
  "on_disk (created [''a'', ''b''] [(''k'', ''v'')]) \<and>
   tags_node (h5 (created [''a'', ''b''] [(''k'', ''v'')])) = Some [''a'', ''b''] \<and>
   set [''a'', ''b''] \<subseteq> set [''b'', ''a'', ''z''] \<and>
   tags_node (h5 (snd (del_tags [''b'', ''a'', ''z''] False (created [''a'', ''b''] [(''k'', ''v'')]))))
     = Some [] \<and>
   events (snd (del_tags [''b'', ''a'', ''z''] False (created [''a'', ''b''] [(''k'', ''v'')])))
     = events (created [''a'', ''b''] [(''k'', ''v'')])
         @ [Remove_table ''tags'', Create_table ''tags''] \<and>
   categories_node (h5 (created [''a'', ''b''] [(''k'', ''v'')])) = Some [(''k'', ''v'')] \<and>
   fst ` set [(''k'', ''v'')] \<subseteq> set [''k''] \<and>
   categories_node (h5 (snd (del_categories [''k''] False (created [''a'', ''b''] [(''k'', ''v'')]))))
     = Some []"
  using del_all_rows_recreates [of "created [''a'', ''b''] [(''k'', ''v'')]" "[''a'', ''b'']"
      "[''b'', ''a'', ''z'']" False "[(''k'', ''v'')]" "[''k'']"]
  by (simp add: created_run Tags_row_def created_rows_distinct Categories_row_def StringCol_fits)

text \<open>
  C7. On an existing file with its table, empty or not, a call of \<^verbatim>\<open>del_tags\<close>
  (resp. \<^verbatim>\<open>del_categories\<close>) with tags (resp. keys) of which none is in the table,
  the \<^verbatim>\<open>all\<close> keyword left at its default, never raises, and the table has as many
  rows after the call as before it; on a table that has rows, every row is left in
  place.
\<close>

theorem del_absent_keeps_rows:
  "(on_disk s \<and> tags_node (h5 s) = Some table \<and> set tags \<inter> set table = {} \<longrightarrow>
      fst (del_tags tags False s) = Inr () \<and>
      tags_node (h5 (snd (del_tags tags False s))) = Some table \<and>
      map_option length (tags_node (h5 (snd (del_tags tags False s)))) = Some (length table))
   \<and>
   (on_disk s \<and> categories_node (h5 s) = Some ctable \<and> set keys \<inter> fst ` set ctable = {} \<longrightarrow>
      fst (del_categories keys False s) = Inr () \<and>
      categories_node (h5 (snd (del_categories keys False s))) = Some ctable \<and>
      map_option length (categories_node (h5 (snd (del_categories keys False s))))
        = Some (length ctable))"
proof (intro conjI impI)
  assume a: "on_disk s \<and> tags_node (h5 s) = Some table \<and> set tags \<inter> set table = {}"
  then have none: "\<forall>row \<in> set table. \<not> row \<in> set tags" by auto
  from a show "fst (del_tags tags False s) = Inr ()"
    by (simp add: del_tags_run)
  from a filter_none [OF none]
  show rows: "tags_node (h5 (snd (del_tags tags False s))) = Some table"
    by (cases "table = []") (auto simp: del_tags_run)
  show "map_option length (tags_node (h5 (snd (del_tags tags False s)))) = Some (length table)"
    by (simp add: rows)
next
  assume a: "on_disk s \<and> categories_node (h5 s) = Some ctable \<and>
    set keys \<inter> fst ` set ctable = {}"
  have none: "\<forall>row \<in> set ctable. \<not> fst row \<in> set keys"
  proof
    fix row assume "row \<in> set ctable"
    then have "fst row \<in> fst ` set ctable" by (rule imageI)
    with a show "\<not> fst row \<in> set keys" by (metis IntI empty_iff)
  qed
  from a show "fst (del_categories keys False s) = Inr ()"
    by (simp add: del_categories_run)
  from a filter_none [OF none]
  show rows: "categories_node (h5 (snd (del_categories keys False s))) = Some ctable"
    by (cases "ctable = []") (auto simp: del_categories_run)
  show "map_option length (categories_node (h5 (snd (del_categories keys False s))))
        = Some (length ctable)"
    by (simp add: rows)
qed

text \<open>
  The statement at a file created with two tags and one category, where the row counts
  stay 2 and 1.
\<close>

theorem del_absent_keeps_rows_witness:
  "on_disk (created [''a'', ''b''] [(''k'', ''v'')]) \<and>
   tags_node (h5 (created [''a'', ''b''] [(''k'', ''v'')])) = Some [''a'', ''b''] \<and>
   set [''nonexistent''] \<inter> set [''a'', ''b''] = {} \<and>
   fst (del_tags [''nonexistent''] False (created [''a'', ''b''] [(''k'', ''v'')])) = Inr () \<and>
   tags_node (h5 (snd (del_tags [''nonexistent''] False (created [''a'', ''b''] [(''k'', ''v'')]))))
     = Some [''a'', ''b''] \<and>
   map_option length
     (tags_node (h5 (snd (del_tags [''nonexistent''] False
        (created [''a'', ''b''] [(''k'', ''v'')]))))) = Some 2 \<and>
   categories_node (h5 (created [''a'', ''b''] [(''k'', ''v'')])) = Some [(''k'', ''v'')] \<and>
   set [''nonexistent''] \<inter> fst ` set [(''k'', ''v'')] = {} \<and>
   fst (del_categories [''nonexistent''] False (created [''a'', ''b''] [(''k'', ''v'')])) = Inr () \<and>
   categories_node
     (h5 (snd (del_categories [''nonexistent''] False (created [''a'', ''b''] [(''k'', ''v'')]))))
     = Some [(''k'', ''v'')] \<and>
   map_option length
     (categories_node (h5 (snd (del_categories [''nonexistent''] False
        (created [''a'', ''b''] [(''k'', ''v'')]))))) = Some 1"
  using del_absent_keeps_rows [of "created [''a'', ''b''] [(''k'', ''v'')]" "[''a'', ''b'']"
      "[''nonexistent'']" "[(''k'', ''v'')]" "[''nonexistent'']"]
  by (simp add: created_run Tags_row_def created_rows_distinct Categories_row_def StringCol_fits)

text \<open>
  C8, as the code has it. \<^verbatim>\<open>add_tags\<close> checks no length. Given one tag longer than 36
  characters, on a table whose rows fit the column, it returns normally and appends one
  row, which holds what the 36-byte column keeps of the tag: at most 36 characters, and
  not the tag.
\<close>

theorem add_tags_long_tag_truncated:
  "(36 < length tag \<and> on_disk s \<and> tags_node (h5 s) = Some table \<and>
    (\<forall>row \<in> set table. length row \<le> 36) \<longrightarrow>
      fst (add_tags [tag] s) = Inr () \<and>
      tags_node (h5 (snd (add_tags [tag] s))) = Some (table @ [StringCol 36 tag]) \<and>
      length (StringCol 36 tag) \<le> 36 \<and>
      StringCol 36 tag \<noteq> tag)"
proof (intro impI)
  assume a: "36 < length tag \<and> on_disk s \<and> tags_node (h5 s) = Some table \<and>
    (\<forall>row \<in> set table. length row \<le> 36)"
  have new: "tag \<notin> set table"
  proof
    assume "tag \<in> set table"
    with a have "length tag \<le> 36" by simp
    with a show False by simp
  qed
  have le: "length (StringCol 36 tag) \<le> 36" by (rule length_StringCol)
  have ne: "StringCol 36 tag \<noteq> tag"
  proof
    assume "StringCol 36 tag = tag"
    with le have "length tag \<le> 36" by simp
    with a show False by simp
  qed
  from a new le ne show "fst (add_tags [tag] s) = Inr () \<and>
      tags_node (h5 (snd (add_tags [tag] s))) = Some (table @ [StringCol 36 tag]) \<and>
      length (StringCol 36 tag) \<le> 36 \<and> StringCol 36 tag \<noteq> tag"
    by (simp add: add_tags_run Tags_row_def)
qed

text \<open>The statement at a file created with the tag a and the tag of 37 characters.\<close>

theorem add_tags_long_tag_truncated_witness:
  "36 < length long37 \<and> on_disk (created [''a''] []) \<and>
   tags_node (h5 (created [''a''] [])) = Some [''a''] \<and>
   length ''a'' \<le> 36 \<and>
   fst (add_tags [long37] (created [''a''] [])) = Inr () \<and>
   tags_node (h5 (snd (add_tags [long37] (created [''a''] [])))) = Some [''a'', take 36 long37]"
  using add_tags_long_tag_truncated [of long37 "created [''a''] []" "[''a'']"]
  by (simp add: created_run Tags_row_def StringCol_long37) (simp add: long37_def)

text \<open>
  C8 as stated fails. \<^verbatim>\<open>add_tags\<close> with a tag of 37 characters, on an empty tags
  table, returns normally, and the table is changed: it holds the first 36 characters.
\<close>

theorem add_tags_long_tag_accepted:
  "length long37 = 37 \<and>
   tags_node (h5 (created [] [])) = Some [] \<and>
   fst (add_tags [long37] (created [] [])) = Inr () \<and>
   tags_node (h5 (snd (add_tags [long37] (created [] [])))) = Some [take 36 long37]"
proof -
  have 0: "on_disk (created [] [])" "tags_node (h5 (created [] [])) = Some []"
    by (simp_all add: created_run)
  show ?thesis
    by (simp add: add_tags_run [OF 0] 0 Tags_row_def StringCol_long37) (simp add: long37_def)
qed

text \<open>
  C9. For all arguments and in every state, \<^verbatim>\<open>SimFile.__init__\<close> raises
  \<^verbatim>\<open>NameError\<close> for the name \<^verbatim>\<open>location\<close> and leaves the state as it was: no file
  was opened or created. \<^verbatim>\<open>SimFile.create\<close> raises \<^verbatim>\<open>AttributeError\<close> for
  \<^verbatim>\<open>exlock\<close>; at that point the file exists with the four tables the base
  \<^verbatim>\<open>create\<close> wrote, and the handle opened for appending after it is still open.
\<close>

theorem SimFile_raises:
  "SimFile_init kw u d s = (Inl (NameError ''location''), s) \<and>
   fst (SimFile_create classname kw u d s) = Inl (AttributeError ''exlock'') \<and>
   handle (snd (SimFile_create classname kw u d s)) = Open_handle Append Unlocked \<and>
   on_disk (snd (SimFile_create classname kw u d s)) \<and>
   h5 (snd (SimFile_create classname kw u d s)) = h5 (snd (create classname kw u d s)) \<and>
   (\<exists>m c t g. h5 (snd (create classname kw u d s)) =
      \<lparr>meta_node = Some m, coordinator_node = Some c, tags_node = Some t,
       categories_node = Some g, universes_group = False\<rparr>)"
proof -
  have "SimFile_init kw u d s = (Inl (NameError ''location''), s)"
    by (simp add: SimFile_init_def bind_action_def load_name_def SimFile_init_params_def
        module_globals_def builtins_def)
  moreover have "SimFile_create classname kw u d s =
      (Inl (AttributeError ''exlock''),
       (snd (create classname kw u d s))\<lparr>handle := Open_handle Append Unlocked\<rparr>)"
    by (simp add: SimFile_create_def bind_action_def create_run open_file_def call_self_exlock)
  ultimately show ?thesis
    by (simp add: create_run)
qed

text \<open>The statement without keyword arguments, where there is no file.\<close>

theorem SimFile_raises_witness:
  "SimFile_init no_kwargs ''0f8fad5b-d9cb-469f-a165-70867728950e'' ''/data/sims'' no_file
     = (Inl (NameError ''location''), no_file) \<and>
   fst (SimFile_create ''Sim'' no_kwargs ''0f8fad5b-d9cb-469f-a165-70867728950e'' ''/data/sims''
          no_file) = Inl (AttributeError ''exlock'') \<and>
   handle (snd (SimFile_create ''Sim'' no_kwargs ''0f8fad5b-d9cb-469f-a165-70867728950e''
          ''/data/sims'' no_file)) = Open_handle Append Unlocked"
  using SimFile_raises [of no_kwargs "''0f8fad5b-d9cb-469f-a165-70867728950e''" "''/data/sims''"
      no_file "''Sim''"]
  by simp

text \<open>
  C10. A call of \<^verbatim>\<open>del_tags\<close> or \<^verbatim>\<open>del_categories\<close> without the \<^verbatim>\<open>all\<close> flag on
  a table without rows finds no matching row, so the number of matches equals the number
  of rows and the branch that removes everything is taken: the call returns normally,
  the table still has no rows, and the table was removed and created again, whatever
  strings were given.
\<close>

theorem del_on_empty_table_recreates:
  "(on_disk s \<and> tags_node (h5 s) = Some [] \<longrightarrow>
      fst (del_tags tags False s) = Inr () \<and>
      tags_node (h5 (snd (del_tags tags False s))) = Some [] \<and>
      events (snd (del_tags tags False s))
        = events s @ [Remove_table ''tags'', Create_table ''tags''])
   \<and>
   (on_disk s \<and> categories_node (h5 s) = Some [] \<longrightarrow>
      fst (del_categories keys False s) = Inr () \<and>
      categories_node (h5 (snd (del_categories keys False s))) = Some [] \<and>
      events (snd (del_categories keys False s))
        = events s @ [Remove_table ''categories'', Create_table ''categories''])"
  by (simp add: del_tags_run del_categories_run)

text \<open>The statement at a file created without tags and categories.\<close>

theorem del_on_empty_table_recreates_witness:
  "on_disk (created [] []) \<and>
   tags_node (h5 (created [] [])) = Some [] \<and>
   categories_node (h5 (created [] [])) = Some [] \<and>
   fst (del_tags [''x''] False (created [] [])) = Inr () \<and>
   tags_node (h5 (snd (del_tags [''x''] False (created [] [])))) = Some [] \<and>
   events (snd (del_tags [''x''] False (created [] [])))
     = events (created [] []) @ [Remove_table ''tags'', Create_table ''tags''] \<and>
   fst (del_categories [''k''] False (created [] [])) = Inr () \<and>
   categories_node (h5 (snd (del_categories [''k''] False (created [] [])))) = Some [] \<and>
   events (snd (del_categories [''k''] False (created [] [])))
     = events (created [] []) @ [Remove_table ''categories'', Create_table ''categories'']"
  using del_on_empty_table_recreates [of "created [] []" "[''x'']" "[''k'']"]
  by (simp add: created_empty)

end
